theory Spec2Isabelle
  imports Complex_Main
begin

section \<open>Go primitives used by the order client\<close>

text \<open>
  The order client (\<^verbatim>\<open>sdk/order/client.go\<close>) computes with three kinds of numbers:
  Go's \<^verbatim>\<open>int64\<close>, \<^verbatim>\<open>*big.Int\<close> and the arbitrary-precision \<^verbatim>\<open>decimal.Decimal\<close>
  of the shopspring library. Unbounded integers are \<open>int\<close>; an \<^verbatim>\<open>int64\<close> is an
  \<open>int\<close> together with the two's complement wrap-around \<open>to_int64\<close> at every place where Go
  narrows to 64 bits.
\<close>

definition int64_range :: "int \<Rightarrow> bool" where
  "int64_range x \<longleftrightarrow> - (2 ^ 63) \<le> x \<and> x < 2 ^ 63"

text \<open>
  \<^verbatim>\<open>(*big.Int).Int64()\<close> takes the low 64 bits of the magnitude and negates the result for a
  negative number, which is the two's complement reading of the low 64 bits.
\<close>

definition to_int64 :: "int \<Rightarrow> int" where
  "to_int64 x = (x + 2 ^ 63) mod 2 ^ 64 - 2 ^ 63"

text \<open>
  Go's integer division (\<^verbatim>\<open>/\<close> on \<^verbatim>\<open>int64\<close>, \<^verbatim>\<open>(*big.Int).Quo\<close>) truncates toward zero,
  unlike \<open>div\<close> on \<open>int\<close>, which rounds toward minus infinity. Every divisor in this file
  is a positive constant or a power of ten.
\<close>

definition quo :: "int \<Rightarrow> int \<Rightarrow> int" where
  "quo a b = sgn a * sgn b * (\<bar>a\<bar> div \<bar>b\<bar>)"

subsection \<open>Parsing signed decimal integers\<close>

definition digit_of :: "char \<Rightarrow> int option" where
  "digit_of c =
     (if c = CHR ''0'' then Some 0 else if c = CHR ''1'' then Some 1
      else if c = CHR ''2'' then Some 2 else if c = CHR ''3'' then Some 3
      else if c = CHR ''4'' then Some 4 else if c = CHR ''5'' then Some 5
      else if c = CHR ''6'' then Some 6 else if c = CHR ''7'' then Some 7
      else if c = CHR ''8'' then Some 8 else if c = CHR ''9'' then Some 9
      else None)"

text \<open>The digit loop of \<^verbatim>\<open>strconv.ParseUint\<close> in base 10, with the accumulator unbounded.\<close>

fun parse_digits :: "int \<Rightarrow> string \<Rightarrow> int option" where
  "parse_digits acc [] = Some acc"
| "parse_digits acc (c # cs) =
     (case digit_of c of None \<Rightarrow> None | Some d \<Rightarrow> parse_digits (10 * acc + d) cs)"

text \<open>
  The syntax shared by \<^verbatim>\<open>strconv.ParseInt(s, 10, _)\<close> and \<^verbatim>\<open>(*big.Int).SetString(s, 10)\<close>:
  an optional sign and at least one digit, nothing else.
\<close>

definition parse_signed :: "string \<Rightarrow> int option" where
  "parse_signed s =
     (case s of
        [] \<Rightarrow> None
      | c # cs \<Rightarrow>
          if c = CHR ''+'' then (if cs = [] then None else parse_digits 0 cs)
          else if c = CHR ''-'' then
            (if cs = [] then None else map_option uminus (parse_digits 0 cs))
          else parse_digits 0 s)"

text \<open>\<^verbatim>\<open>strconv.ParseInt(s, 10, 32)\<close>: a value outside the 32-bit range is an error.\<close>

definition ParseInt32 :: "string \<Rightarrow> int option" where
  "ParseInt32 s =
     (case parse_signed s of
        None \<Rightarrow> None
      | Some n \<Rightarrow> if - (2 ^ 31) \<le> n \<and> n < 2 ^ 31 then Some n else None)"

section \<open>The decimal library\<close>

text \<open>
  A \<^verbatim>\<open>decimal.Decimal\<close> is a coefficient and a 32-bit exponent of ten:
  \<^verbatim>\<open>Decimal{value *big.Int, exp int32}\<close> stands for \<open>value * 10 ^ exp\<close>.
\<close>

record Decimal =
  dvalue :: int
  dexp :: int

definition exp_range :: "int \<Rightarrow> bool" where
  "exp_range e \<longleftrightarrow> - (2 ^ 31) \<le> e \<and> e < 2 ^ 31"

text \<open>The rational number a decimal stands for.\<close>

definition dec_val :: "Decimal \<Rightarrow> rat" where
  "dec_val d =
     (if 0 \<le> dexp d then of_int (dvalue d) * 10 ^ nat (dexp d)
      else of_int (dvalue d) / 10 ^ nat (- dexp d))"

definition is_exp_char :: "char \<Rightarrow> bool" where
  "is_exp_char c \<longleftrightarrow> c = CHR ''E'' \<or> c = CHR ''e''"

definition is_point :: "char \<Rightarrow> bool" where
  "is_point c \<longleftrightarrow> c = CHR ''.''"

text \<open>
  \<^verbatim>\<open>decimal.NewFromString\<close>. The text after the first \<^verbatim>\<open>E\<close> or \<^verbatim>\<open>e\<close> is the exponent
  (\<^verbatim>\<open>ParseInt(.., 10, 32)\<close>); the text before it may hold at most one point, which is
  removed and lowers the exponent by the number of characters after it; what is left must be
  a signed integer (\<^verbatim>\<open>ParseInt\<close> up to 18 characters, \<^verbatim>\<open>big.Int.SetString\<close> beyond, the
  same syntax); the final exponent must fit 32 bits.
\<close>

definition NewFromString :: "string \<Rightarrow> Decimal option" where
  "NewFromString s =
     (let mant = takeWhile (\<lambda>c. \<not> is_exp_char c) s;
          rest = dropWhile (\<lambda>c. \<not> is_exp_char c) s
      in case (if rest = [] then Some 0 else ParseInt32 (tl rest)) of
           None \<Rightarrow> None
         | Some e \<Rightarrow>
             (if 1 < length (filter is_point mant) then None
              else
                (let before = takeWhile (\<lambda>c. \<not> is_point c) mant;
                     after = dropWhile (\<lambda>c. \<not> is_point c) mant;
                     intString = (if after = [] then mant else before @ tl after);
                     e' = (if after = [] then e else e - int (length (tl after)))
                 in (case parse_signed intString of
                       None \<Rightarrow> None
                     | Some v \<Rightarrow>
                         (if exp_range e' then Some \<lparr>dvalue = v, dexp = e'\<rparr>
                          else None)))))"

definition NewFromBigInt :: "int \<Rightarrow> int \<Rightarrow> Decimal" where
  "NewFromBigInt v e = \<lparr>dvalue = v, dexp = e\<rparr>"

text \<open>
  \<^verbatim>\<open>Decimal.Mul\<close> multiplies the coefficients and adds the exponents; it panics when the
  sum of the exponents leaves the 32-bit range (\<open>None\<close> here).
\<close>

definition Mul :: "Decimal \<Rightarrow> Decimal \<Rightarrow> Decimal option" where
  "Mul d d2 =
     (if exp_range (dexp d + dexp d2)
      then Some \<lparr>dvalue = dvalue d * dvalue d2, dexp = dexp d + dexp d2\<rparr>
      else None)"

text \<open>
  \<^verbatim>\<open>Decimal.rescale(0)\<close>: a positive exponent multiplies the coefficient by the power of
  ten, a negative one divides it with \<^verbatim>\<open>Quo\<close> (truncation toward zero). The power of
  ten is a \<^verbatim>\<open>big.Int\<close>, whatever its size.
\<close>

definition rescale0 :: "Decimal \<Rightarrow> int" where
  "rescale0 d =
     (if dexp d = 0 then dvalue d
      else if 0 > dexp d then quo (dvalue d) (10 ^ nat (- dexp d))
      else dvalue d * 10 ^ nat (dexp d))"

text \<open>\<^verbatim>\<open>Decimal.BigInt\<close> is the rescaled coefficient; \<^verbatim>\<open>Decimal.IntPart\<close> narrows it to \<^verbatim>\<open>int64\<close>.\<close>

definition BigInt :: "Decimal \<Rightarrow> int" where
  "BigInt d = rescale0 d"

definition IntPart :: "Decimal \<Rightarrow> int" where
  "IntPart d = to_int64 (rescale0 d)"

text \<open>
  \<^verbatim>\<open>Decimal.Ceil\<close>: a decimal with a non-negative exponent is returned as it is; otherwise
  the coefficient is divided by the power of ten with \<^verbatim>\<open>DivMod\<close> (Euclidean, the remainder
  is never negative) and one is added when the remainder is not zero.
\<close>

definition Ceil :: "Decimal \<Rightarrow> Decimal" where
  "Ceil d =
     (if 0 \<le> dexp d then d
      else
        let p = 10 ^ nat (- dexp d);
            z = dvalue d div p;
            m = dvalue d mod p
        in \<lparr>dvalue = (if m \<noteq> 0 then z + 1 else z), dexp = 0\<rparr>)"

section \<open>Time\<close>

text \<open>
  A \<^verbatim>\<open>time.Time\<close> as the pair that \<^verbatim>\<open>t.sec()\<close> and \<^verbatim>\<open>t.nsec()\<close> read: the seconds
  since January 1 of the year 1, an \<^verbatim>\<open>int64\<close> (the field \<^verbatim>\<open>ext\<close> of a time without a
  monotonic clock reading), and the nanoseconds within the second, below \<open>10 ^ 9\<close>. A
  \<^verbatim>\<open>time.Duration\<close> is a count of nanoseconds.
\<close>

record Time =
  internalSec :: int
  nsec :: nat

definition valid_Time :: "Time \<Rightarrow> bool" where
  "valid_Time t \<longleftrightarrow> int64_range (internalSec t) \<and> nsec t < 1000000000"

definition unixToInternal :: int where
  "unixToInternal = 62135596800"

definition internalToUnix :: int where
  "internalToUnix = - unixToInternal"

definition Hour :: int where
  "Hour = 60 * 60 * 1000000000"

text \<open>
  \<^verbatim>\<open>time.Unix(sec, nsec)\<close>: nanoseconds outside of a second are carried into the seconds,
  and the seconds are moved to the internal origin in \<^verbatim>\<open>int64\<close>.
\<close>

definition Unix :: "int \<Rightarrow> int \<Rightarrow> Time" where
  "Unix s n =
     (if n < 0 \<or> 1000000000 \<le> n
      then (let q = quo n 1000000000;
                n' = n - q * 1000000000
            in if n' < 0
               then \<lparr>internalSec = to_int64 (s + q - 1 + unixToInternal),
                     nsec = nat (n' + 1000000000)\<rparr>
               else \<lparr>internalSec = to_int64 (s + q + unixToInternal), nsec = nat n'\<rparr>)
      else \<lparr>internalSec = to_int64 (s + unixToInternal), nsec = nat n\<rparr>)"

text \<open>
  \<^verbatim>\<open>(*Time).addSec\<close> on the seconds counter: the sum is computed in \<^verbatim>\<open>int64\<close> and, when
  it has overflowed, replaced by the largest or the smallest second, \<open>2 ^ 63 - 1\<close> or its
  negative. (A time with a monotonic reading keeps its seconds in a 33-bit field and moves
  them to \<^verbatim>\<open>ext\<close> before this sum; such seconds are far from the overflow.)
\<close>

definition addSec :: "int \<Rightarrow> int \<Rightarrow> int" where
  "addSec s d =
     (let sum = to_int64 (s + d)
      in if (sum > s) = (d > 0) then sum
         else if d > 0 then 2 ^ 63 - 1
         else - (2 ^ 63 - 1))"

text \<open>
  \<^verbatim>\<open>Time.Add\<close> splits the duration into seconds and nanoseconds (Go's truncating division
  and remainder), adds the nanoseconds, carries into the seconds and adds the seconds with
  \<^verbatim>\<open>addSec\<close>.
\<close>

definition Add :: "Time \<Rightarrow> int \<Rightarrow> Time" where
  "Add t d =
     (let dsec = quo d 1000000000;
          ns = int (nsec t) + (d - 1000000000 * quo d 1000000000)
      in if 1000000000 \<le> ns
         then \<lparr>internalSec = addSec (internalSec t) (dsec + 1), nsec = nat (ns - 1000000000)\<rparr>
         else if ns < 0
         then \<lparr>internalSec = addSec (internalSec t) (dsec - 1), nsec = nat (ns + 1000000000)\<rparr>
         else \<lparr>internalSec = addSec (internalSec t) dsec, nsec = nat ns\<rparr>)"

text \<open>
  \<^verbatim>\<open>(*Time).unixSec\<close> is \<^verbatim>\<open>t.sec() + internalToUnix\<close> and \<^verbatim>\<open>Time.UnixMilli\<close> is
  \<^verbatim>\<open>t.unixSec()*1e3 + int64(t.nsec())/1e6\<close>, both computed in \<^verbatim>\<open>int64\<close>.
\<close>

definition unixSec :: "Time \<Rightarrow> int" where
  "unixSec t = to_int64 (internalSec t + internalToUnix)"

definition UnixMilli :: "Time \<Rightarrow> int" where
  "UnixMilli t = to_int64 (unixSec t * 1000 + quo (int (nsec t)) 1000000)"

section \<open>Data of the order client\<close>

text \<open>
  \<^verbatim>\<open>OrderType\<close> is a string type (\<^verbatim>\<open>string(params.Type)\<close> in the request body).

  Modelled from the spec: the declarations of \<^verbatim>\<open>OrderTypeMarket\<close>, \<^verbatim>\<open>OrderTypeLimit\<close>,
  \<^verbatim>\<open>TimeInForce_IMMEDIATE_OR_CANCEL\<close> and \<^verbatim>\<open>TimeInForce_GOOD_TIL_CANCEL\<close> are in another
  file of the package. The spec names the order types market and limit and the two policies
  immediate-or-cancel and good-til-cancel; the constants carry those names as the exchange
  spells them on the wire. The two order types are different strings (they are the cases of
  one \<^verbatim>\<open>switch\<close>).
\<close>

definition OrderTypeMarket :: string where
  "OrderTypeMarket = ''MARKET''"

definition OrderTypeLimit :: string where
  "OrderTypeLimit = ''LIMIT''"

definition TimeInForce_IMMEDIATE_OR_CANCEL :: string where
  "TimeInForce_IMMEDIATE_OR_CANCEL = ''IMMEDIATE_OR_CANCEL''"

definition TimeInForce_GOOD_TIL_CANCEL :: string where
  "TimeInForce_GOOD_TIL_CANCEL = ''GOOD_TIL_CANCEL''"

record CreateOrderParams =
  ContractId :: string
  Price :: string
  Size :: string
  Type :: string
  Side :: string
  TimeInForce :: string
  ReduceOnly :: bool
  ExpireTime :: Time

record CancelOrderParams =
  Cancel_OrderId :: string
  Cancel_ClientId :: string
  Cancel_ContractId :: string

text \<open>The fields of \<^verbatim>\<open>metadata.Contract\<close> and \<^verbatim>\<open>metadata.Coin\<close> that the client reads.\<close>

record Contract =
  Contract_ContractId :: string
  Contract_QuoteCoinId :: string
  Contract_StarkExResolution :: string
  Contract_StarkExSyntheticAssetId :: string
  Contract_DefaultTakerFeeRate :: string

record Coin =
  Coin_CoinId :: string
  Coin_StarkExResolution :: string
  Coin_StarkExAssetId :: string

text \<open>A \<^verbatim>\<open>nil\<close> slice is the empty list: ranging over it runs no iteration.\<close>

record MetaData =
  ContractList :: "Contract list"
  CoinList :: "Coin list"

record Signature =
  R :: string
  S :: string
  V :: string

text \<open>
  The response envelope of \<^verbatim>\<open>createOrder\<close>; the types of the error parameters and of
  the payload are declared elsewhere and stay parameters.
\<close>

record ('p, 'd) ResultCreateOrder =
  Code :: string
  ErrorMsg :: string
  ErrorParam :: 'p
  Data :: 'd

text \<open>A JSON value as \<^verbatim>\<open>json.Unmarshal\<close> stores it in an \<^verbatim>\<open>interface{}\<close>.\<close>

datatype json =
    JNull
  | JBool bool
  | JNumber rat
  | JString string
  | JArray "json list"
  | JObject "(string \<times> json) list"

text \<open>
  One constructor for each \<^verbatim>\<open>fmt.Errorf\<close> of \<^verbatim>\<open>CreateOrder\<close> and \<^verbatim>\<open>CancelOrder\<close>, with
  the values the message is formatted from, and one for the panic of \<^verbatim>\<open>Decimal.Mul\<close>.
\<close>

datatype 'p error =
    ContractNotFound string
  | CoinNotFound string
  | ParseSyntheticFactorFailed
  | ParseShiftFactorFailed
  | ParseSizeFailed
  | ParseFeeRateFailed
  | ExponentOverflowPanic
  | SignFailed
  | CreateOrderFailed
  | CancelOrderFailed
  | ReadBodyFailed
  | UnmarshalFailed
  | RequestFailedMsg string string 'p
  | RequestFailedCodeParam string 'p
  | RequestFailedCode string
  | MustProvideId

text \<open>
  The arguments of \<^verbatim>\<open>internal.CalcLimitOrderHash\<close>, in the order of the call: three asset
  identifiers, the buy flag and six \<^verbatim>\<open>int64\<close>.
\<close>

type_synonym commitment =
  "string \<times> string \<times> string \<times> bool \<times> int \<times> int \<times> int \<times> int \<times> int \<times> int"

type_synonym bytes = string

text \<open>
  A request body is a \<^verbatim>\<open>map[string]interface{}\<close> literal, kept as the list of its
  entries. \<open>FInt\<close> is an integer rendered by \<^verbatim>\<open>strconv.FormatInt(_, 10)\<close> and \<open>FDec\<close> a
  decimal rendered by \<^verbatim>\<open>Decimal.String\<close>; the renderings themselves are not modelled.
\<close>

datatype field =
    FStr string
  | FInt int
  | FDec Decimal
  | FBool bool
  | FStrs "string list"

type_synonym body = "(string \<times> field) list"

datatype http_result = RequestError | ReadError | RespBody bytes

text \<open>What a call does to the outside, in order.\<close>

datatype event =
    Hashed commitment
  | Signed bytes
  | Requested string string body

text \<open>
  Modelled from the spec: the package \<^verbatim>\<open>sdk/internal\<close> is not among the sources.
  \<^verbatim>\<open>HexToBigInteger\<close> parses a resolution factor or fails; \<^verbatim>\<open>CalcNonce\<close> is the fixed
  deterministic transform of the client order identifier into a nonce, a function of that
  identifier; \<^verbatim>\<open>CalcLimitOrderHash\<close> produces the message hash from the ordered
  commitment; \<^verbatim>\<open>GetAccountID\<close> and \<^verbatim>\<open>GetBaseURL\<close> read the client; \<^verbatim>\<open>Sign\<close> is the
  signer, which returns a signature or fails; \<^verbatim>\<open>HttpRequest\<close> is the transport together
  with the reading of the response body. The two decoders are \<^verbatim>\<open>json.Unmarshal\<close> into
  the envelope of \<^verbatim>\<open>CreateOrder\<close> and into the map of \<^verbatim>\<open>CancelOrder\<close>.
\<close>

record ('p, 'd) env =
  HexToBigInteger :: "string \<Rightarrow> int option"
  CalcNonce :: "string \<Rightarrow> int"
  CalcLimitOrderHash :: "commitment \<Rightarrow> bytes"
  GetAccountID :: int
  GetBaseURL :: string
  Sign :: "bytes \<Rightarrow> Signature option"
  HttpRequest :: "string \<Rightarrow> string \<Rightarrow> body \<Rightarrow> http_result"
  UnmarshalResultCreateOrder :: "bytes \<Rightarrow> ('p, 'd) ResultCreateOrder option"
  UnmarshalMap :: "bytes \<Rightarrow> (string \<Rightarrow> json option) option"

section \<open>CreateOrder\<close>

text \<open>Lines 31 to 39: the default time-in-force, written into the caller's parameters.\<close>

definition default_TimeInForce :: "CreateOrderParams \<Rightarrow> CreateOrderParams" where
  "default_TimeInForce params =
     (if TimeInForce params = []
      then (if Type params = OrderTypeMarket
            then params\<lparr>TimeInForce := TimeInForce_IMMEDIATE_OR_CANCEL\<rparr>
            else if Type params = OrderTypeLimit
            then params\<lparr>TimeInForce := TimeInForce_GOOD_TIL_CANCEL\<rparr>
            else params)
      else params)"

text \<open>
  Lines 41 to 68: the first contract with the requested identifier and the first coin with
  the contract's quote coin identifier; a \<^verbatim>\<open>nil\<close> metadata pointer finds nothing.
\<close>

definition find_contract :: "MetaData option \<Rightarrow> string \<Rightarrow> Contract option" where
  "find_contract metadata cid =
     (case metadata of
        None \<Rightarrow> None
      | Some m \<Rightarrow> find (\<lambda>c. Contract_ContractId c = cid) (ContractList m))"

definition find_quoteCoin :: "MetaData option \<Rightarrow> string \<Rightarrow> Coin option" where
  "find_quoteCoin metadata qid =
     (case metadata of
        None \<Rightarrow> None
      | Some m \<Rightarrow> find (\<lambda>c. Coin_CoinId c = qid) (CoinList m))"

text \<open>
  Lines 93 to 103: the contract's taker fee rate when the field is not empty, the default
  \<^verbatim>\<open>0.001\<close> otherwise (the error of parsing the default is ignored in the source).
\<close>

definition get_feeRate :: "Contract \<Rightarrow> Decimal option" where
  "get_feeRate contract =
     (if Contract_DefaultTakerFeeRate contract \<noteq> []
      then NewFromString (Contract_DefaultTakerFeeRate contract)
      else (case NewFromString ''0.001'' of
              None \<Rightarrow> Some \<lparr>dvalue = 0, dexp = 0\<rparr>
            | Some v \<Rightarrow> Some v))"

text \<open>
  The local variables of \<^verbatim>\<open>CreateOrder\<close> when line 126 is reached, under their names in
  the source (\<open>size\<close> is \<open>sizeD\<close>; the function below primes the variables bound on the way); \<open>hashArgs\<close> is the argument list of the call of
  \<^verbatim>\<open>CalcLimitOrderHash\<close>.
\<close>

record locals =
  contract :: Contract
  quoteCoin :: Coin
  syntheticFactor :: Decimal
  shiftFactor :: Decimal
  sizeD :: Decimal
  valueDm :: Decimal
  amountSynthetic :: int
  amountCollateral :: int
  feeRate :: Decimal
  limitFee :: Decimal
  maxAmountFee :: Decimal
  clientOrderId :: string
  nonce :: int
  l2ExpireTime :: int
  l2ExpireHour :: int
  hashArgs :: commitment
  msgHash :: bytes

text \<open>
  Modelled from the spec: \<^verbatim>\<open>internal.GetRandomClientId\<close> is not among the sources. The
  spec describes the client order identifier as assigned on the client side and does not say
  how; the call of line 109 takes no argument, so what it returns is not a function of the
  order or of the metadata. It is the input \<open>drawn\<close> of the call here.

  Lines 41 to 126, after the default of the time-in-force: the lookups, the quantization,
  the nonce, the expiry and the hash. A panic of \<^verbatim>\<open>Decimal.Mul\<close> ends the call like an
  error.
\<close>

definition CreateOrder_commit ::
  "('p, 'd) env \<Rightarrow> CreateOrderParams \<Rightarrow> MetaData option \<Rightarrow> Decimal \<Rightarrow> string
     \<Rightarrow> 'p error + locals" where
  "CreateOrder_commit c params metadata l2Price drawn =
     (case find_contract metadata (ContractId params) of
        None \<Rightarrow> Inl (ContractNotFound (ContractId params))
      | Some contract' \<Rightarrow>
     (case find_quoteCoin metadata (Contract_QuoteCoinId contract') of
        None \<Rightarrow> Inl (CoinNotFound (Contract_QuoteCoinId contract'))
      | Some quoteCoin' \<Rightarrow>
     (case HexToBigInteger c (Contract_StarkExResolution contract') of
        None \<Rightarrow> Inl ParseSyntheticFactorFailed
      | Some syntheticFactorBig \<Rightarrow>
     (case HexToBigInteger c (Coin_StarkExResolution quoteCoin') of
        None \<Rightarrow> Inl ParseShiftFactorFailed
      | Some shiftFactorBig \<Rightarrow>
     (case NewFromString (Size params) of
        None \<Rightarrow> Inl ParseSizeFailed
      | Some size' \<Rightarrow>
     (case Mul l2Price size' of
        None \<Rightarrow> Inl ExponentOverflowPanic
      | Some valueDm' \<Rightarrow>
     (case Mul size' (NewFromBigInt syntheticFactorBig 0) of
        None \<Rightarrow> Inl ExponentOverflowPanic
      | Some sizeSynthetic \<Rightarrow>
     (case Mul valueDm' (NewFromBigInt shiftFactorBig 0) of
        None \<Rightarrow> Inl ExponentOverflowPanic
      | Some valueShifted \<Rightarrow>
     (case get_feeRate contract' of
        None \<Rightarrow> Inl ParseFeeRateFailed
      | Some feeRate' \<Rightarrow>
     (case Mul size' l2Price of
        None \<Rightarrow> Inl ExponentOverflowPanic
      | Some sizePrice \<Rightarrow>
     (case Mul sizePrice feeRate' of
        None \<Rightarrow> Inl ExponentOverflowPanic
      | Some fee \<Rightarrow>
     (case Mul (Ceil fee) (NewFromBigInt shiftFactorBig 0) of
        None \<Rightarrow> Inl ExponentOverflowPanic
      | Some maxAmountFee' \<Rightarrow>
          (let clientOrderId' = drawn;
               nonce' = CalcNonce c clientOrderId';
               l2ExpireTime' = UnixMilli (Add (ExpireTime params) (Hour * 9 * 24));
               l2ExpireHour' = quo l2ExpireTime' (60 * 60 * 1000);
               args = (Contract_StarkExSyntheticAssetId contract',
                       Coin_StarkExAssetId quoteCoin',
                       Coin_StarkExAssetId quoteCoin',
                       Side params = ''BUY'',
                       IntPart sizeSynthetic,
                       IntPart valueShifted,
                       to_int64 (BigInt maxAmountFee'),
                       nonce',
                       GetAccountID c,
                       l2ExpireHour')
           in Inr \<lparr>contract = contract', quoteCoin = quoteCoin',
                   syntheticFactor = NewFromBigInt syntheticFactorBig 0,
                   shiftFactor = NewFromBigInt shiftFactorBig 0,
                   sizeD = size', valueDm = valueDm',
                   amountSynthetic = IntPart sizeSynthetic,
                   amountCollateral = IntPart valueShifted,
                   feeRate = feeRate', limitFee = Ceil fee, maxAmountFee = maxAmountFee',
                   clientOrderId = clientOrderId', nonce = nonce',
                   l2ExpireTime = l2ExpireTime', l2ExpireHour = l2ExpireHour',
                   hashArgs = args, msgHash = CalcLimitOrderHash c args\<rparr>)))))))))))))"

text \<open>Lines 134 to 151: the request body.\<close>

definition CreateOrder_body ::
  "('p, 'd) env \<Rightarrow> CreateOrderParams \<Rightarrow> locals \<Rightarrow> Signature \<Rightarrow> body" where
  "CreateOrder_body c params l signature =
     [(''accountId'', FInt (GetAccountID c)),
      (''contractId'', FStr (ContractId params)),
      (''price'', FStr (Price params)),
      (''size'', FStr (Size params)),
      (''type'', FStr (Type params)),
      (''side'', FStr (Side params)),
      (''timeInForce'', FStr (TimeInForce params)),
      (''clientOrderId'', FStr (clientOrderId l)),
      (''expireTime'', FInt (UnixMilli (ExpireTime params))),
      (''l2Nonce'', FInt (nonce l)),
      (''l2Signature'', FStr (R signature @ S signature @ V signature)),
      (''l2ExpireTime'', FInt (l2ExpireTime l)),
      (''l2Value'', FDec (valueDm l)),
      (''l2Size'', FStr (Size params)),
      (''l2LimitFee'', FDec (limitFee l)),
      (''reduceOnly'', FBool (ReduceOnly params))]"

text \<open>Lines 170 to 177: the interpretation of the decoded envelope.\<close>

definition CreateOrder_interpret ::
  "('p, 'd) ResultCreateOrder \<Rightarrow> 'p error + ('p, 'd) ResultCreateOrder" where
  "CreateOrder_interpret result =
     (if Code result \<noteq> ''SUCCESS''
      then (if ErrorMsg result \<noteq> []
            then Inl (RequestFailedMsg (ErrorMsg result) (Code result) (ErrorParam result))
            else Inl (RequestFailedCodeParam (Code result) (ErrorParam result)))
      else Inr result)"

text \<open>
  The whole call: its result, the caller's parameters after the call (they are passed by
  pointer and line 35 or 37 may write to them) and what the call did to the outside. The
  parameters and the client are values here: a call with a \<^verbatim>\<open>nil\<close> pointer for either is
  not part of the model.
\<close>

definition CreateOrder ::
  "('p, 'd) env \<Rightarrow> CreateOrderParams \<Rightarrow> MetaData option \<Rightarrow> Decimal \<Rightarrow> string
     \<Rightarrow> ('p error + ('p, 'd) ResultCreateOrder) \<times> CreateOrderParams \<times> event list" where
  "CreateOrder c params0 metadata l2Price drawn =
     (let params = default_TimeInForce params0
      in case CreateOrder_commit c params metadata l2Price drawn of
           Inl e \<Rightarrow> (Inl e, params, [])
         | Inr l \<Rightarrow>
        (case Sign c (msgHash l) of
           None \<Rightarrow> (Inl SignFailed, params, [Hashed (hashArgs l), Signed (msgHash l)])
         | Some signature \<Rightarrow>
             (let body = CreateOrder_body c params l signature;
                  url = GetBaseURL c @ ''/api/v1/private/order/createOrder'';
                  evs = [Hashed (hashArgs l), Signed (msgHash l), Requested url ''POST'' body]
              in case HttpRequest c url ''POST'' body of
                   RequestError \<Rightarrow> (Inl CreateOrderFailed, params, evs)
                 | ReadError \<Rightarrow> (Inl ReadBodyFailed, params, evs)
                 | RespBody respBody \<Rightarrow>
                     (case UnmarshalResultCreateOrder c respBody of
                        None \<Rightarrow> (Inl UnmarshalFailed, params, evs)
                      | Some result \<Rightarrow> (CreateOrder_interpret result, params, evs)))))"

section \<open>CancelOrder\<close>

text \<open>Lines 225 to 229: the interpretation of the decoded map.\<close>

definition CancelOrder_interpret ::
  "(string \<Rightarrow> json option) \<Rightarrow> 'p error + (string \<Rightarrow> json option)" where
  "CancelOrder_interpret result =
     (case result ''code'' of
        Some (JString code) \<Rightarrow>
          if code \<noteq> ''SUCCESS'' then Inl (RequestFailedCode code) else Inr result
      | _ \<Rightarrow> Inr result)"

text \<open>Lines 187 to 207: the endpoint and the body, or the error when no field is set.\<close>

definition CancelOrder_target ::
  "('p, 'd) env \<Rightarrow> CancelOrderParams \<Rightarrow> (string \<times> body) option" where
  "CancelOrder_target c params =
     (let accountID = FInt (GetAccountID c)
      in if Cancel_OrderId params \<noteq> [] then
           Some (GetBaseURL c @ ''/api/v1/private/order/cancelOrderById'',
                 [(''accountId'', accountID), (''orderIdList'', FStrs [Cancel_OrderId params])])
         else if Cancel_ClientId params \<noteq> [] then
           Some (GetBaseURL c @ ''/api/v1/private/order/cancelOrderByClientOrderId'',
                 [(''accountId'', accountID),
                  (''clientOrderIdList'', FStrs [Cancel_ClientId params])])
         else if Cancel_ContractId params \<noteq> [] then
           Some (''/api/v1/private/order/cancelAllOrder'',
                 [(''accountId'', accountID),
                  (''filterContractIdList'', FStrs [Cancel_ContractId params])])
         else None)"

definition CancelOrder ::
  "('p, 'd) env \<Rightarrow> CancelOrderParams
     \<Rightarrow> ('p error + (string \<Rightarrow> json option)) \<times> event list" where
  "CancelOrder c params =
     (case CancelOrder_target c params of
        None \<Rightarrow> (Inl MustProvideId, [])
      | Some (url, body) \<Rightarrow>
          (case HttpRequest c url ''POST'' body of
             RequestError \<Rightarrow> (Inl CancelOrderFailed, [Requested url ''POST'' body])
           | ReadError \<Rightarrow> (Inl ReadBodyFailed, [Requested url ''POST'' body])
           | RespBody respBody \<Rightarrow>
               (case UnmarshalMap c respBody of
                  None \<Rightarrow> (Inl UnmarshalFailed, [Requested url ''POST'' body])
                | Some result \<Rightarrow>
                    (CancelOrder_interpret result, [Requested url ''POST'' body]))))"

section \<open>Notions of the specification\<close>

text \<open>
  Truncation toward zero of a rational number, the rounding rule the specification names
  for the synthetic and the collateral amount.
\<close>

definition truncate_toward_zero :: "rat \<Rightarrow> int" where
  "truncate_toward_zero r = (if 0 \<le> r then \<lfloor>r\<rfloor> else \<lceil>r\<rceil>)"

text \<open>
  The instant of a time in milliseconds since the Unix epoch, as an unbounded integer: what
  the specification calls the expiration in milliseconds.
\<close>

definition unix_ms :: "Time \<Rightarrow> int" where
  "unix_ms t = (internalSec t - unixToInternal) * 1000 + int (nsec t div 1000000)"

text \<open>The last representable second, where \<^verbatim>\<open>Time.Add\<close> stops.\<close>

definition last_second :: "Time \<Rightarrow> Time" where
  "last_second t = t\<lparr>internalSec := 2 ^ 63 - 1\<rparr>"

text \<open>The seventh and the tenth argument of the hash: the fee cap and the expiry bucket.\<close>

definition commitment_fee :: "commitment \<Rightarrow> int" where
  "commitment_fee args = fst (snd (snd (snd (snd (snd (snd args))))))"

definition commitment_expiry :: "commitment \<Rightarrow> int" where
  "commitment_expiry args = snd (snd (snd (snd (snd (snd (snd (snd (snd args))))))))"

section \<open>A sample order\<close>

text \<open>
  One contract with its quote coin, both with the resolution \<open>1000000\<close>, an order for
  \<open>1.9999999\<close> units at the price \<open>3.5\<close>, and a client whose signer always signs and
  whose exchange answers every request with the success envelope; the sample decoders know
  that body and the empty object. The theorems below are instantiated on them.
\<close>

definition example_contract :: Contract where
  "example_contract =
     \<lparr>Contract_ContractId = ''10000001'', Contract_QuoteCoinId = ''1000'',
      Contract_StarkExResolution = ''0xf4240'',
      Contract_StarkExSyntheticAssetId = ''0x4254432d3130'',
      Contract_DefaultTakerFeeRate = ''0.0005''\<rparr>"

definition example_coin :: Coin where
  "example_coin =
     \<lparr>Coin_CoinId = ''1000'', Coin_StarkExResolution = ''0xf4240'',
      Coin_StarkExAssetId = ''0x2ce6''\<rparr>"

definition example_metadata :: MetaData where
  "example_metadata = \<lparr>ContractList = [example_contract], CoinList = [example_coin]\<rparr>"

definition example_params :: CreateOrderParams where
  "example_params =
     \<lparr>ContractId = ''10000001'', Price = ''3.5'', Size = ''1.9999999'', Type = ''LIMIT'',
      Side = ''BUY'', TimeInForce = [], ReduceOnly = False,
      ExpireTime = Unix 1700000000 0\<rparr>"

definition example_price :: Decimal where
  "example_price = \<lparr>dvalue = 35, dexp = - 1\<rparr>"

definition example_signature :: Signature where
  "example_signature = \<lparr>R = ''r'', S = ''s'', V = ''v''\<rparr>"

definition example_env :: "(unit, unit) env" where
  \<open>example_env =
     \<lparr>HexToBigInteger = (\<lambda>s. if s = ''0xf4240'' then Some 1000000 else None),
      CalcNonce = (\<lambda>s. int (length s)),
      CalcLimitOrderHash = (\<lambda>args. ''hash''),
      GetAccountID = 7,
      GetBaseURL = ''https://x'',
      Sign = (\<lambda>h. Some example_signature),
      HttpRequest = (\<lambda>url method body. RespBody ''{"code":"SUCCESS"}''),
      UnmarshalResultCreateOrder =
        (\<lambda>b. if b = ''{"code":"SUCCESS"}''
             then Some \<lparr>Code = ''SUCCESS'', ErrorMsg = [], ErrorParam = (), Data = ()\<rparr>
             else if b = ''{}''
             then Some \<lparr>Code = [], ErrorMsg = [], ErrorParam = (), Data = ()\<rparr>
             else None),
      UnmarshalMap =
        (\<lambda>b. if b = ''{"code":"SUCCESS"}''
             then Some (Map.empty(''code'' \<mapsto> JString ''SUCCESS''))
             else if b = ''{}'' then Some Map.empty
             else None)\<rparr>\<close>

definition example_locals :: locals where
  "example_locals =
     \<lparr>contract = example_contract, quoteCoin = example_coin,
      syntheticFactor = \<lparr>dvalue = 1000000, dexp = 0\<rparr>,
      shiftFactor = \<lparr>dvalue = 1000000, dexp = 0\<rparr>,
      sizeD = \<lparr>dvalue = 19999999, dexp = - 7\<rparr>,
      valueDm = \<lparr>dvalue = 699999965, dexp = - 8\<rparr>,
      amountSynthetic = 1999999, amountCollateral = 6999999,
      feeRate = \<lparr>dvalue = 5, dexp = - 4\<rparr>,
      limitFee = \<lparr>dvalue = 1, dexp = 0\<rparr>,
      maxAmountFee = \<lparr>dvalue = 1000000, dexp = 0\<rparr>,
      clientOrderId = ''42'', nonce = 2,
      l2ExpireTime = 1700777600000, l2ExpireHour = 472438,
      hashArgs = (''0x4254432d3130'', ''0x2ce6'', ''0x2ce6'', True, 1999999, 6999999,
                  1000000, 2, 7, 472438),
      msgHash = ''hash''\<rparr>"

text \<open>
  The local variables of the sample order with the expiration at the last representable
  second.
\<close>

definition example_locals_last :: locals where
  "example_locals_last =
     example_locals
       \<lparr>l2ExpireTime := - 62135596801000, l2ExpireHour := - 17259888,
        hashArgs := (''0x4254432d3130'', ''0x2ce6'', ''0x2ce6'', True, 1999999, 6999999,
                     1000000, 2, 7, - 17259888)\<rparr>"

section \<open>Lemmas on the primitives\<close>

lemma to_int64_id: "int64_range x \<Longrightarrow> to_int64 x = x"
  by (simp add: int64_range_def to_int64_def)

lemma to_int64_in_range: "int64_range (to_int64 x)"
  unfolding int64_range_def to_int64_def
  using pos_mod_bound [of "2 ^ 64" "x + 2 ^ 63"] pos_mod_sign [of "2 ^ 64" "x + 2 ^ 63"]
  by simp

lemma quo_truncate:
  assumes "0 < b"
  shows "quo a b = truncate_toward_zero (of_int a / of_int b)"
proof (cases "0 \<le> a")
  case True
  then have "quo a b = a div b" using assms by (simp add: quo_def sgn_if)
  moreover have "(0::rat) \<le> of_int a / of_int b" using True assms by simp
  ultimately show ?thesis by (simp add: truncate_toward_zero_def floor_divide_of_int_eq)
next
  case False
  then have q: "quo a b = - ((- a) div b)" using assms by (simp add: quo_def sgn_if)
  have neg: "(of_int a / of_int b :: rat) < 0" using False assms by (simp add: divide_neg_pos)
  have "\<lceil>of_int a / of_int b :: rat\<rceil> = - \<lfloor>of_int (- a) / of_int b :: rat\<rfloor>"
    by (simp add: ceiling_def)
  also have "\<dots> = - ((- a) div b)" by (simp only: floor_divide_of_int_eq)
  finally show ?thesis using q neg by (simp add: truncate_toward_zero_def)
qed

lemma truncate_of_int: "truncate_toward_zero (of_int n) = n"
  by (simp add: truncate_toward_zero_def)

lemma rescale0_truncate: "rescale0 d = truncate_toward_zero (dec_val d)"
proof -
  consider "dexp d = 0" | "dexp d < 0" | "0 < dexp d" by linarith
  then show ?thesis
  proof cases
    case 1
    then show ?thesis by (simp add: rescale0_def dec_val_def truncate_of_int)
  next
    case 2
    have "quo (dvalue d) (10 ^ nat (- dexp d))
        = truncate_toward_zero (of_int (dvalue d) / of_int (10 ^ nat (- dexp d)))"
      by (rule quo_truncate) simp
    with 2 show ?thesis by (simp add: rescale0_def dec_val_def)
  next
    case 3
    have "truncate_toward_zero (of_int (dvalue d * 10 ^ nat (dexp d))) = dvalue d * 10 ^ nat (dexp d)"
      by (rule truncate_of_int)
    with 3 show ?thesis by (simp add: rescale0_def dec_val_def)
  qed
qed

lemma dec_val_powr: "dec_val d = of_int (dvalue d) * 10 powi (dexp d)"
  by (simp add: dec_val_def power_int_def field_simps)

lemma dec_val_Mul: "Mul a b = Some c \<Longrightarrow> dec_val c = dec_val a * dec_val b"
  by (auto simp: Mul_def dec_val_powr power_int_add split: if_splits)

lemma dec_val_NewFromBigInt: "dec_val (NewFromBigInt v 0) = of_int v"
  by (simp add: NewFromBigInt_def dec_val_def)

lemma dec_val_Ceil: "dec_val (Ceil d) = of_int \<lceil>dec_val d\<rceil>"
proof (cases "0 \<le> dexp d")
  case True
  have "dec_val d = of_int (dvalue d * 10 ^ nat (dexp d))" using True by (simp add: dec_val_def)
  then have "of_int \<lceil>dec_val d\<rceil> = dec_val d" by (metis ceiling_of_int)
  moreover have "Ceil d = d" using True by (simp add: Ceil_def)
  ultimately show ?thesis by (simp only:)
next
  case False
  define p :: int where "p = 10 ^ nat (- dexp d)"
  have p: "0 < p" by (simp add: p_def)
  have v: "dec_val d = of_int (dvalue d) / of_int p" using False by (simp add: dec_val_def p_def)
  have c: "\<lceil>of_int (dvalue d) / of_int p :: rat\<rceil> = (if dvalue d mod p \<noteq> 0 then dvalue d div p + 1 else dvalue d div p)"
    using p by (simp add: ceiling_divide_eq_div zdiv_zminus1_eq_if)
  have "Ceil d = \<lparr>dvalue = (if dvalue d mod p \<noteq> 0 then dvalue d div p + 1 else dvalue d div p),
                   dexp = 0\<rparr>"
    using False by (simp add: Ceil_def Let_def p_def)
  then have "dec_val (Ceil d)
      = of_int (if dvalue d mod p \<noteq> 0 then dvalue d div p + 1 else dvalue d div p)"
    by (simp add: dec_val_def)
  also have "\<dots> = of_int \<lceil>dec_val d\<rceil>" by (simp only: v c)
  finally show ?thesis .
qed

lemma quo_nonneg: "0 \<le> a \<Longrightarrow> 0 < b \<Longrightarrow> quo a b = a div b"
  by (simp add: quo_def sgn_if)

lemma to_int64_mult_add: "to_int64 (to_int64 a * k + b) = to_int64 (a * k + b)"
proof -
  have "(to_int64 a * k + b + 2 ^ 63) mod 2 ^ 64 = (a * k + b + 2 ^ 63) mod 2 ^ 64"
  proof -
    have "to_int64 a mod 2 ^ 64 = a mod 2 ^ 64"
      by (simp add: to_int64_def mod_simps)
    then have "(to_int64 a * k) mod 2 ^ 64 = (a * k) mod 2 ^ 64"
      by (rule mod_mult_cong) simp
    then show ?thesis
      by (simp only: add.assoc) (rule mod_add_cong, simp_all)
  qed
  then show ?thesis by (simp add: to_int64_def)
qed

lemma UnixMilli_unix_ms: "UnixMilli t = to_int64 (unix_ms t)"
proof -
  have "quo (int (nsec t)) 1000000 = int (nsec t div 1000000)"
    by (simp add: quo_nonneg zdiv_int)
  then show ?thesis
    by (simp add: UnixMilli_def unixSec_def unix_ms_def internalToUnix_def to_int64_mult_add)
qed

lemma addSec_9_days:
  assumes "int64_range s"
  shows "addSec s 777600 = (if s + 777600 < 2 ^ 63 then s + 777600 else 2 ^ 63 - 1)"
proof (cases "s + 777600 < 2 ^ 63")
  case True
  then have "int64_range (s + 777600)" using assms by (simp add: int64_range_def)
  then have "to_int64 (s + 777600) = s + 777600" by (rule to_int64_id)
  then show ?thesis using True by (simp add: addSec_def)
next
  case False
  then have "int64_range (s + 777600 - 2 ^ 64)" using assms by (simp add: int64_range_def)
  then have "to_int64 (s + 777600 - 2 ^ 64) = s + 777600 - 2 ^ 64" by (rule to_int64_id)
  moreover have "to_int64 (s + 777600 - 2 ^ 64) = to_int64 (s + 777600)"
  proof -
    have "s + 777600 + 2 ^ 63 = (s + 777600 - 2 ^ 64 + 2 ^ 63) + 2 ^ 64" by simp
    then have "(s + 777600 + 2 ^ 63) mod 2 ^ 64 = (s + 777600 - 2 ^ 64 + 2 ^ 63) mod 2 ^ 64"
      by (simp only: mod_add_self2)
    then show ?thesis by (simp only: to_int64_def)
  qed
  ultimately have "to_int64 (s + 777600) = s + 777600 - 2 ^ 64" by simp
  then show ?thesis using False by (simp add: addSec_def)
qed

lemma Add_9_days:
  assumes "valid_Time t"
  shows "Add t (Hour * 9 * 24) = t\<lparr>internalSec := addSec (internalSec t) 777600\<rparr>"
proof -
  have q: "quo (Hour * 9 * 24) 1000000000 = 777600"
    by (simp add: quo_def Hour_def)
  have r: "Hour * 9 * 24 - 1000000000 * 777600 = 0"
    by (simp add: Hour_def)
  show ?thesis
    using assms unfolding Add_def Let_def q r valid_Time_def
    by simp
qed

lemma UnixMilli_Add_9_days:
  assumes "valid_Time t"
  shows "UnixMilli (Add t (Hour * 9 * 24)) =
           (if internalSec t + 777600 < 2 ^ 63 then to_int64 (unix_ms t + 777600000)
            else to_int64 (unix_ms (last_second t)))"
proof -
  have s: "int64_range (internalSec t)" using assms by (simp add: valid_Time_def)
  show ?thesis
    unfolding Add_9_days [OF assms] UnixMilli_unix_ms
    by (simp add: addSec_9_days [OF s] unix_ms_def last_second_def algebra_simps)
qed

section \<open>What a successful commitment fixes\<close>

lemma commit_Inr:
  assumes "CreateOrder_commit c params metadata l2Price drawn = Inr l"
  shows commit_contract: "find_contract metadata (ContractId params) = Some (contract l)"
    and commit_quoteCoin:
      "find_quoteCoin metadata (Contract_QuoteCoinId (contract l)) = Some (quoteCoin l)"
    and commit_syntheticFactor:
      "\<exists>v. HexToBigInteger c (Contract_StarkExResolution (contract l)) = Some v
           \<and> syntheticFactor l = NewFromBigInt v 0"
    and commit_shiftFactor:
      "\<exists>v. HexToBigInteger c (Coin_StarkExResolution (quoteCoin l)) = Some v
           \<and> shiftFactor l = NewFromBigInt v 0"
    and commit_size: "NewFromString (Size params) = Some (sizeD l)"
    and commit_valueDm: "Mul l2Price (sizeD l) = Some (valueDm l)"
    and commit_amountSynthetic:
      "\<exists>x. Mul (sizeD l) (syntheticFactor l) = Some x \<and> amountSynthetic l = IntPart x"
    and commit_amountCollateral:
      "\<exists>x. Mul (valueDm l) (shiftFactor l) = Some x \<and> amountCollateral l = IntPart x"
    and commit_feeRate: "get_feeRate (contract l) = Some (feeRate l)"
    and commit_limitFee:
      "\<exists>sp fee. Mul (sizeD l) l2Price = Some sp \<and> Mul sp (feeRate l) = Some fee
           \<and> limitFee l = Ceil fee"
    and commit_maxAmountFee: "Mul (limitFee l) (shiftFactor l) = Some (maxAmountFee l)"
    and commit_clientOrderId: "clientOrderId l = drawn"
    and commit_nonce: "nonce l = CalcNonce c (clientOrderId l)"
    and commit_l2ExpireTime:
      "l2ExpireTime l = UnixMilli (Add (ExpireTime params) (Hour * 9 * 24))"
    and commit_l2ExpireHour: "l2ExpireHour l = quo (l2ExpireTime l) (60 * 60 * 1000)"
    and commit_hashArgs:
      "hashArgs l =
         (Contract_StarkExSyntheticAssetId (contract l), Coin_StarkExAssetId (quoteCoin l),
          Coin_StarkExAssetId (quoteCoin l), Side params = ''BUY'', amountSynthetic l,
          amountCollateral l, to_int64 (BigInt (maxAmountFee l)), nonce l, GetAccountID c,
          l2ExpireHour l)"
    and commit_msgHash: "msgHash l = CalcLimitOrderHash c (hashArgs l)"
  using assms
  by (auto simp: CreateOrder_commit_def Let_def split: option.splits)

lemma map_of_body_l2ExpireTime:
  "map_of (CreateOrder_body c params l signature) ''l2ExpireTime'' = Some (FInt (l2ExpireTime l))"
  by (simp add: CreateOrder_body_def)

section \<open>The call as a whole\<close>

lemma default_TimeInForce_fields [simp]:
  "ContractId (default_TimeInForce p) = ContractId p"
  "Price (default_TimeInForce p) = Price p"
  "Size (default_TimeInForce p) = Size p"
  "Type (default_TimeInForce p) = Type p"
  "Side (default_TimeInForce p) = Side p"
  "ReduceOnly (default_TimeInForce p) = ReduceOnly p"
  "ExpireTime (default_TimeInForce p) = ExpireTime p"
  by (simp_all add: default_TimeInForce_def)

lemma commit_ignores_TimeInForce:
  "CreateOrder_commit c (default_TimeInForce p) metadata l2Price drawn
     = CreateOrder_commit c p metadata l2Price drawn"
  by (simp add: CreateOrder_commit_def cong: option.case_cong)

lemma commit_ignores_Price:
  "CreateOrder_commit c (p\<lparr>Price := s\<rparr>) metadata l2Price drawn
     = CreateOrder_commit c p metadata l2Price drawn"
  by (simp add: CreateOrder_commit_def cong: option.case_cong)

lemma CreateOrder_params: "fst (snd (CreateOrder c p metadata l2Price drawn)) = default_TimeInForce p"
  by (simp add: CreateOrder_def Let_def split: sum.splits option.splits http_result.splits)

lemma CreateOrder_commit_Inl:
  "CreateOrder_commit c p metadata l2Price drawn = Inl e \<Longrightarrow>
     CreateOrder c p metadata l2Price drawn = (Inl e, default_TimeInForce p, [])"
  by (simp add: CreateOrder_def Let_def commit_ignores_TimeInForce)

lemma CreateOrder_events:
  assumes "CreateOrder_commit c p metadata l2Price drawn = Inr l"
  shows "snd (snd (CreateOrder c p metadata l2Price drawn)) =
           (case Sign c (msgHash l) of
              None \<Rightarrow> [Hashed (hashArgs l), Signed (msgHash l)]
            | Some signature \<Rightarrow>
                [Hashed (hashArgs l), Signed (msgHash l),
                 Requested (GetBaseURL c @ ''/api/v1/private/order/createOrder'') ''POST''
                   (CreateOrder_body c (default_TimeInForce p) l signature)])"
  using assms
  by (simp add: CreateOrder_def Let_def commit_ignores_TimeInForce
      split: sum.splits option.splits http_result.splits)


lemma CreateOrder_result:
  assumes "CreateOrder_commit c p metadata l2Price drawn = Inr l"
    and "Sign c (msgHash l) = Some signature"
    and "HttpRequest c (GetBaseURL c @ ''/api/v1/private/order/createOrder'') ''POST''
           (CreateOrder_body c (default_TimeInForce p) l signature) = RespBody respBody"
    and "UnmarshalResultCreateOrder c respBody = Some result"
  shows "fst (CreateOrder c p metadata l2Price drawn) = CreateOrder_interpret result"
  using assms by (simp add: CreateOrder_def Let_def commit_ignores_TimeInForce)

lemma CancelOrder_result:
  assumes "CancelOrder_target c p = Some (url, body)"
    and "HttpRequest c url ''POST'' body = RespBody respBody"
    and "UnmarshalMap c respBody = Some result"
  shows "fst (CancelOrder c p) = CancelOrder_interpret result"
  using assms by (simp add: CancelOrder_def)

lemma NewFromString_exp_range: "NewFromString s = Some d \<Longrightarrow> exp_range (dexp d)"
  by (auto simp: NewFromString_def Let_def split: option.splits if_splits)

lemma find_contract_None:
  "ContractId params \<notin> Contract_ContractId ` set (case metadata of None \<Rightarrow> [] | Some m \<Rightarrow> ContractList m)
     \<Longrightarrow> find_contract metadata (ContractId params) = None"
  by (fastforce simp: find_contract_def find_None_iff image_iff split: option.splits)

lemma find_quoteCoin_None:
  "qid \<notin> Coin_CoinId ` set (case metadata of None \<Rightarrow> [] | Some m \<Rightarrow> CoinList m)
     \<Longrightarrow> find_quoteCoin metadata qid = None"
  by (fastforce simp: find_quoteCoin_def find_None_iff image_iff split: option.splits)

lemma map_of_body_timeInForce:
  "map_of (CreateOrder_body c params l signature) ''timeInForce''
     = Some (FStr (TimeInForce params))"
  by (simp add: CreateOrder_body_def)

section \<open>The sample order, evaluated\<close>

lemmas eval_defs = CreateOrder_commit_def find_contract_def find_quoteCoin_def get_feeRate_def
  NewFromString_def is_exp_char_def is_point_def parse_signed_def digit_of_def ParseInt32_def
  exp_range_def Mul_def NewFromBigInt_def Ceil_def IntPart_def BigInt_def rescale0_def quo_def
  to_int64_def UnixMilli_def unixSec_def internalToUnix_def unixToInternal_def Unix_def
  addSec_def Add_def Hour_def default_TimeInForce_def
  OrderTypeMarket_def OrderTypeLimit_def TimeInForce_GOOD_TIL_CANCEL_def
  TimeInForce_IMMEDIATE_OR_CANCEL_def
  example_env_def example_params_def example_metadata_def example_contract_def example_coin_def
  example_price_def example_signature_def

lemma example_commit:
  "CreateOrder_commit example_env example_params (Some example_metadata) example_price ''42''
     = Inr example_locals"
  by (simp add: eval_defs example_locals_def Let_def)

lemma example_commit_last:
  "CreateOrder_commit example_env (example_params\<lparr>ExpireTime := Unix 9223371974719179007 0\<rparr>)
     (Some example_metadata) example_price ''42''
     = Inr example_locals_last"
  by (simp add: eval_defs example_locals_def example_locals_last_def Let_def)

lemmas parse_defs = NewFromString_def is_exp_char_def is_point_def parse_signed_def digit_of_def
  ParseInt32_def exp_range_def

lemmas example_defs = example_env_def example_params_def example_metadata_def
  example_contract_def example_coin_def example_price_def example_signature_def

lemma example_CreateOrder:
  "CreateOrder example_env example_params (Some example_metadata) example_price ''42'' =
     (Inr \<lparr>Code = ''SUCCESS'', ErrorMsg = [], ErrorParam = (), Data = ()\<rparr>,
      example_params\<lparr>TimeInForce := ''GOOD_TIL_CANCEL''\<rparr>,
      [Hashed (hashArgs example_locals), Signed ''hash'',
       Requested ''https://x/api/v1/private/order/createOrder'' ''POST''
         (CreateOrder_body example_env (example_params\<lparr>TimeInForce := ''GOOD_TIL_CANCEL''\<rparr>)
            example_locals example_signature)])"
proof -
  have p: "default_TimeInForce example_params = example_params\<lparr>TimeInForce := ''GOOD_TIL_CANCEL''\<rparr>"
    by (simp add: default_TimeInForce_def example_params_def OrderTypeMarket_def
        OrderTypeLimit_def TimeInForce_GOOD_TIL_CANCEL_def)
  have c: "CreateOrder_commit example_env (example_params\<lparr>TimeInForce := ''GOOD_TIL_CANCEL''\<rparr>)
      (Some example_metadata) example_price ''42'' = Inr example_locals"
  proof -
    have "CreateOrder_commit example_env (default_TimeInForce example_params)
        (Some example_metadata) example_price ''42'' = Inr example_locals"
      by (simp only: commit_ignores_TimeInForce example_commit)
    then show ?thesis by (simp only: p)
  qed
  show ?thesis
    unfolding CreateOrder_def Let_def p c
    by (simp add: example_env_def example_locals_def CreateOrder_interpret_def)
qed

lemma commit_fails_on_size:
  "NewFromString (Size params) = None \<Longrightarrow>
     \<exists>e. CreateOrder_commit c params metadata l2Price drawn = Inl e"
  by (simp add: CreateOrder_commit_def split: option.splits)

lemma commit_fails_on_feeRate:
  "find_contract metadata (ContractId params) = Some ct \<Longrightarrow> get_feeRate ct = None \<Longrightarrow>
     \<exists>e. CreateOrder_commit c params metadata l2Price drawn = Inl e"
  by (simp add: CreateOrder_commit_def split: option.splits)

lemma get_feeRate_default:
  "Contract_DefaultTakerFeeRate ct = [] \<Longrightarrow> get_feeRate ct = Some \<lparr>dvalue = 1, dexp = - 3\<rparr>"
  by (simp add: get_feeRate_def parse_defs)

lemma map_of_body_price:
  "map_of (CreateOrder_body c params l signature) ''price'' = Some (FStr (Price params))"
  by (simp add: CreateOrder_body_def)

lemma CreateOrder_Requested:
  assumes "Requested url method body \<in> set (snd (snd (CreateOrder c p metadata l2Price drawn)))"
  shows "\<exists>l signature. CreateOrder_commit c p metadata l2Price drawn = Inr l
           \<and> Sign c (msgHash l) = Some signature
           \<and> body = CreateOrder_body c (default_TimeInForce p) l signature"
proof (cases "CreateOrder_commit c p metadata l2Price drawn")
  case (Inl e)
  from CreateOrder_commit_Inl [OF Inl] assms show ?thesis by simp
next
  case (Inr l)
  from assms show ?thesis
    unfolding CreateOrder_events [OF Inr] using Inr
    by (auto split: option.splits)
qed

lemma example_commit_default_fee:
  "CreateOrder_commit example_env example_params
     (Some (example_metadata
        \<lparr>ContractList := [example_contract\<lparr>Contract_DefaultTakerFeeRate := []\<rparr>]\<rparr>))
     example_price ''42''
     = Inr (example_locals
              \<lparr>contract := example_contract\<lparr>Contract_DefaultTakerFeeRate := []\<rparr>,
               feeRate := \<lparr>dvalue = 1, dexp = - 3\<rparr>\<rparr>)"
  by (simp add: eval_defs example_locals_def Let_def)

section \<open>The fee cap\<close>

text \<open>
  Claim C2 as stated fails for the fee cap that is committed: the scaled cap enters the hash
  as \<^verbatim>\<open>maxAmountFee.BigInt().Int64()\<close> (line 122), an \<^verbatim>\<open>int64\<close>. A size of
  \<open>5000000000000\<close> units at the price \<open>1\<close> with the fee rate \<open>2\<close> and the resolution
  \<open>1000000\<close> has the fee \<open>10 ^ 13\<close> and the scaled cap \<open>10 ^ 19\<close>, but the committed
  cap is \<open>10 ^ 19 - 2 ^ 64\<close>, which is negative.
\<close>

theorem fee_cap_counterexample:
  "map_sum id
     (\<lambda>l. (dec_val (sizeD l) * dec_val \<lparr>dvalue = 1, dexp = 0\<rparr> * dec_val (feeRate l),
           dec_val (maxAmountFee l), dec_val (shiftFactor l), commitment_fee (hashArgs l)))
     (CreateOrder_commit example_env (example_params\<lparr>Size := ''5000000000000''\<rparr>)
        (Some (example_metadata
           \<lparr>ContractList := [example_contract\<lparr>Contract_DefaultTakerFeeRate := ''2''\<rparr>]\<rparr>))
        \<lparr>dvalue = 1, dexp = 0\<rparr> ''42'')
   = Inr (10000000000000, 10000000000000000000, 1000000, - 8446744073709551616)"
  by (simp add: eval_defs Let_def dec_val_def commitment_fee_def)

text \<open>
  Claim C2, amended. The fee cap of lines 105 to 107 is the decimal ceiling of size times
  price times fee rate, taken before the scaling, and then multiplied by the collateral
  resolution; the product is a whole number and is not truncated, so as a decimal the scaled
  cap divided by a resolution other than zero is at least the unrounded fee. The cap that is
  committed to the hash is the 64-bit reading of the scaled cap: it equals the scaled cap,
  and divided by the resolution is at least the unrounded fee, whenever the scaled cap fits
  64 bits.
\<close>

theorem fee_cap_upper_bound:
  assumes "CreateOrder_commit c params metadata l2Price drawn = Inr l"
  shows "dec_val (limitFee l)
           = of_int \<lceil>dec_val (sizeD l) * dec_val l2Price * dec_val (feeRate l)\<rceil>
       \<and> dec_val (maxAmountFee l) = dec_val (limitFee l) * dec_val (shiftFactor l)
       \<and> of_int (truncate_toward_zero (dec_val (maxAmountFee l))) = dec_val (maxAmountFee l)
       \<and> (dec_val (shiftFactor l) \<noteq> 0 \<longrightarrow>
            dec_val (sizeD l) * dec_val l2Price * dec_val (feeRate l)
              \<le> dec_val (maxAmountFee l) / dec_val (shiftFactor l))
       \<and> commitment_fee (hashArgs l)
           = to_int64 (truncate_toward_zero (dec_val (maxAmountFee l)))
       \<and> (int64_range (truncate_toward_zero (dec_val (maxAmountFee l))) \<longrightarrow>
            of_int (commitment_fee (hashArgs l)) = dec_val (maxAmountFee l))
       \<and> (int64_range (truncate_toward_zero (dec_val (maxAmountFee l)))
            \<and> dec_val (shiftFactor l) \<noteq> 0 \<longrightarrow>
            dec_val (sizeD l) * dec_val l2Price * dec_val (feeRate l)
              \<le> of_int (commitment_fee (hashArgs l)) / dec_val (shiftFactor l))"
proof -
  let ?fee = "dec_val (sizeD l) * dec_val l2Price * dec_val (feeRate l)"
  let ?cap = "truncate_toward_zero (dec_val (maxAmountFee l))"
  from commit_limitFee [OF assms] obtain sp fee where
    sp: "Mul (sizeD l) l2Price = Some sp" and fee: "Mul sp (feeRate l) = Some fee"
    and lf: "limitFee l = Ceil fee"
    by blast
  have "dec_val fee = ?fee"
    using dec_val_Mul [OF sp] dec_val_Mul [OF fee] by simp
  then have a: "dec_val (limitFee l) = of_int \<lceil>?fee\<rceil>"
    using lf by (simp add: dec_val_Ceil)
  have b: "dec_val (maxAmountFee l) = dec_val (limitFee l) * dec_val (shiftFactor l)"
    by (rule dec_val_Mul [OF commit_maxAmountFee [OF assms]])
  from commit_shiftFactor [OF assms] obtain v where
    v: "dec_val (shiftFactor l) = of_int v"
    by (auto simp: dec_val_NewFromBigInt)
  have "dec_val (maxAmountFee l) = of_int (\<lceil>?fee\<rceil> * v)"
    by (simp add: a b v)
  then have w: "of_int ?cap = dec_val (maxAmountFee l)"
    by (simp only: truncate_of_int)
  have "?fee \<le> dec_val (limitFee l)"
    unfolding a by (rule le_of_int_ceiling)
  then have d: "dec_val (shiftFactor l) \<noteq> 0 \<longrightarrow>
      ?fee \<le> dec_val (maxAmountFee l) / dec_val (shiftFactor l)"
    by (simp add: b)
  have h: "commitment_fee (hashArgs l) = to_int64 ?cap"
    by (simp add: commit_hashArgs [OF assms] commitment_fee_def BigInt_def rescale0_truncate)
  have i: "int64_range ?cap \<longrightarrow> of_int (commitment_fee (hashArgs l)) = dec_val (maxAmountFee l)"
    using h w by (simp add: to_int64_id)
  from a b w d h i show ?thesis by simp
qed

text \<open>
  Claim C2 on the sample order: the fee \<open>1.9999999 * 3.5 * 0.0005 = 0.003499999825\<close> is
  capped at one whole unit, a million after scaling, and a million is committed.
\<close>

theorem fee_cap_upper_bound_witness:
  "CreateOrder_commit example_env example_params (Some example_metadata) example_price ''42''
     = Inr example_locals
   \<and> dec_val (sizeD example_locals) * dec_val example_price * dec_val (feeRate example_locals)
       = 3499999825 / 1000000000000
   \<and> dec_val (limitFee example_locals) = 1
   \<and> dec_val (maxAmountFee example_locals) = 1000000
   \<and> dec_val (shiftFactor example_locals) = 1000000
   \<and> int64_range (truncate_toward_zero (dec_val (maxAmountFee example_locals)))
   \<and> commitment_fee (hashArgs example_locals) = 1000000
   \<and> dec_val (sizeD example_locals) * dec_val example_price * dec_val (feeRate example_locals)
       \<le> of_int (commitment_fee (hashArgs example_locals))
           / dec_val (shiftFactor example_locals)"
  using fee_cap_upper_bound [OF example_commit] example_commit
  by (simp add: dec_val_def example_locals_def example_price_def commitment_fee_def
      int64_range_def truncate_toward_zero_def)

section \<open>The two amounts\<close>

text \<open>
  Claim C3 as stated fails: both amounts are \<^verbatim>\<open>int64\<close>, so they cannot equal a truncated
  product beyond 64 bits. A size of \<open>10000000000000\<close> units with the synthetic resolution
  \<open>1000000\<close> has the truncated product \<open>10 ^ 19\<close> and the amount
  \<open>10 ^ 19 - 2 ^ 64\<close>.
\<close>

theorem amounts_truncate_counterexample:
  "map_sum id (\<lambda>l. (amountSynthetic l,
                     truncate_toward_zero (dec_val (sizeD l) * dec_val (syntheticFactor l))))
     (CreateOrder_commit example_env (example_params\<lparr>Size := ''10000000000000''\<rparr>)
        (Some example_metadata) example_price ''42'')
   = Inr (- 8446744073709551616, 10000000000000000000)"
  by (simp add: eval_defs Let_def dec_val_def truncate_toward_zero_def)

text \<open>
  Claim C3, amended. The synthetic amount is the 64-bit reading of the truncation toward
  zero of size times synthetic resolution, the collateral amount that of price times size
  times collateral resolution; each equals the truncation itself whenever the truncation
  fits 64 bits.
\<close>

theorem amounts_truncate:
  assumes "CreateOrder_commit c params metadata l2Price drawn = Inr l"
  shows "amountSynthetic l
           = to_int64 (truncate_toward_zero (dec_val (sizeD l) * dec_val (syntheticFactor l)))
       \<and> amountCollateral l
           = to_int64 (truncate_toward_zero
                         (dec_val l2Price * dec_val (sizeD l) * dec_val (shiftFactor l)))
       \<and> (int64_range (truncate_toward_zero (dec_val (sizeD l) * dec_val (syntheticFactor l)))
            \<longrightarrow> amountSynthetic l
                  = truncate_toward_zero (dec_val (sizeD l) * dec_val (syntheticFactor l)))
       \<and> (int64_range (truncate_toward_zero
                          (dec_val l2Price * dec_val (sizeD l) * dec_val (shiftFactor l)))
            \<longrightarrow> amountCollateral l
                  = truncate_toward_zero
                      (dec_val l2Price * dec_val (sizeD l) * dec_val (shiftFactor l)))"
proof -
  from commit_amountSynthetic [OF assms] obtain x where
    x: "Mul (sizeD l) (syntheticFactor l) = Some x" and ax: "amountSynthetic l = IntPart x"
    by blast
  from commit_amountCollateral [OF assms] obtain y where
    y: "Mul (valueDm l) (shiftFactor l) = Some y" and ay: "amountCollateral l = IntPart y"
    by blast
  have s: "amountSynthetic l
      = to_int64 (truncate_toward_zero (dec_val (sizeD l) * dec_val (syntheticFactor l)))"
    using ax dec_val_Mul [OF x] by (simp add: IntPart_def rescale0_truncate)
  have "dec_val y = dec_val l2Price * dec_val (sizeD l) * dec_val (shiftFactor l)"
    using dec_val_Mul [OF y] dec_val_Mul [OF commit_valueDm [OF assms]] by simp
  then have t: "amountCollateral l
      = to_int64 (truncate_toward_zero
                    (dec_val l2Price * dec_val (sizeD l) * dec_val (shiftFactor l)))"
    using ay by (simp add: IntPart_def rescale0_truncate)
  show ?thesis using s t by (simp add: to_int64_id)
qed

text \<open>
  Claim C3 on the sample order: the size \<open>1.9999999\<close> with the resolution \<open>1000000\<close>
  gives the synthetic amount \<open>1999999\<close>, not \<open>2000000\<close>, and the value \<open>6.99999965\<close>
  gives the collateral amount \<open>6999999\<close>.
\<close>

theorem amounts_truncate_witness:
  "CreateOrder_commit example_env example_params (Some example_metadata) example_price ''42''
     = Inr example_locals
   \<and> NewFromString ''1.9999999'' = Some (sizeD example_locals)
   \<and> dec_val (syntheticFactor example_locals) = 1000000
   \<and> int64_range (truncate_toward_zero
                    (dec_val (sizeD example_locals) * dec_val (syntheticFactor example_locals)))
   \<and> truncate_toward_zero
        (dec_val (sizeD example_locals) * dec_val (syntheticFactor example_locals)) = 1999999
   \<and> amountSynthetic example_locals = 1999999
   \<and> truncate_toward_zero
        (dec_val example_price * dec_val (sizeD example_locals)
           * dec_val (shiftFactor example_locals)) = 6999999
   \<and> amountCollateral example_locals = 6999999"
  using amounts_truncate [OF example_commit] example_commit
    commit_size [OF example_commit]
  by (simp add: dec_val_def int64_range_def truncate_toward_zero_def example_locals_def
      example_price_def example_params_def)

section \<open>The expiry\<close>

text \<open>
  Claim C4 as stated fails: Go's division truncates toward zero, so the hour bucket is not
  the floor when the buffered expiry lies before the epoch. An expiration one second before
  \<open>1969-12-23T00:00:00Z\<close> has the buffered expiry \<open>-1000\<close> milliseconds, the bucket
  \<open>0\<close> and the floor \<open>-1\<close>.
\<close>

theorem expiry_counterexample:
  "map_sum id (\<lambda>l. (l2ExpireTime l, l2ExpireHour l,
                     \<lfloor>(of_int (l2ExpireTime l) :: rat) / 3600000\<rfloor>))
     (CreateOrder_commit example_env (example_params\<lparr>ExpireTime := Unix (- 777601) 0\<rparr>)
        (Some example_metadata) example_price ''42'')
   = Inr (- 1000, 0, - 1)"
  by (simp add: eval_defs Let_def
      floor_divide_of_int_eq [where 'a = rat, of "- 1000" 3600000, simplified])

text \<open>
  Claim C4, amended. For every expiration whose second plus nine days is representable, the
  wire expiry is the 64-bit reading of the expiration plus nine days in milliseconds, and
  the sum itself whenever the sum fits 64 bits; for an expiration within nine days of the
  last representable second \<^verbatim>\<open>Time.Add\<close> stops at that second, and the wire expiry is the
  64-bit millisecond reading of it. The hour bucket is the wire expiry divided by
  \<open>3600000\<close> with truncation toward zero, which is the floor whenever the wire expiry is not
  negative; the bucket in the hash input is the wire expiry of the request body reduced by
  that same division.
\<close>

theorem expiry_derivation:
  assumes "CreateOrder_commit c params metadata l2Price drawn = Inr l"
    and "valid_Time (ExpireTime params)"
  shows "(internalSec (ExpireTime params) + 9 * 24 * 60 * 60 < 2 ^ 63 \<longrightarrow>
            l2ExpireTime l = to_int64 (unix_ms (ExpireTime params) + 9 * 24 * 60 * 60 * 1000))
       \<and> (int64_range (unix_ms (ExpireTime params) + 9 * 24 * 60 * 60 * 1000) \<longrightarrow>
            l2ExpireTime l = unix_ms (ExpireTime params) + 9 * 24 * 60 * 60 * 1000)
       \<and> (2 ^ 63 \<le> internalSec (ExpireTime params) + 9 * 24 * 60 * 60 \<longrightarrow>
            l2ExpireTime l = to_int64 (unix_ms (last_second (ExpireTime params))))
       \<and> l2ExpireHour l = quo (l2ExpireTime l) 3600000
       \<and> (0 \<le> l2ExpireTime l \<longrightarrow>
            l2ExpireHour l = \<lfloor>(of_int (l2ExpireTime l) :: rat) / 3600000\<rfloor>)
       \<and> commitment_expiry (hashArgs l) = quo (l2ExpireTime l) 3600000
       \<and> map_of (CreateOrder_body c params l signature) ''l2ExpireTime''
           = Some (FInt (l2ExpireTime l))"
proof -
  let ?T = "ExpireTime params"
  have t: "l2ExpireTime l =
      (if internalSec ?T + 777600 < 2 ^ 63 then to_int64 (unix_ms ?T + 777600000)
       else to_int64 (unix_ms (last_second ?T)))"
    unfolding commit_l2ExpireTime [OF assms(1)] by (rule UnixMilli_Add_9_days [OF assms(2)])
  have r: "int64_range (unix_ms ?T + 777600000) \<longrightarrow> internalSec ?T + 777600 < 2 ^ 63"
    by (simp add: int64_range_def unix_ms_def unixToInternal_def)
  have h: "l2ExpireHour l = quo (l2ExpireTime l) 3600000"
    using commit_l2ExpireHour [OF assms(1)] by simp
  have f: "0 \<le> l2ExpireTime l \<longrightarrow>
      l2ExpireHour l = \<lfloor>(of_int (l2ExpireTime l) :: rat) / 3600000\<rfloor>"
  proof
    assume "0 \<le> l2ExpireTime l"
    then have "quo (l2ExpireTime l) 3600000 = l2ExpireTime l div 3600000"
      by (simp add: quo_nonneg)
    also have "\<dots> = \<lfloor>(of_int (l2ExpireTime l) :: rat) / of_int 3600000\<rfloor>"
      by (simp only: floor_divide_of_int_eq)
    finally show "l2ExpireHour l = \<lfloor>(of_int (l2ExpireTime l) :: rat) / 3600000\<rfloor>"
      using h by simp
  qed
  have a: "commitment_expiry (hashArgs l) = quo (l2ExpireTime l) 3600000"
    using commit_hashArgs [OF assms(1)] h by (simp add: commitment_expiry_def)
  show ?thesis
    using t r h f a by (simp add: to_int64_id map_of_body_l2ExpireTime)
qed

text \<open>
  Claim C4 on the sample order: the expiration \<open>1700000000\<close> seconds after the epoch gives
  the wire expiry \<open>1700777600000\<close> and the bucket \<open>472438\<close>. The same order with the
  expiration \<^verbatim>\<open>time.Unix(9223371974719179007, 0)\<close>, the last representable second, gives
  the wire expiry \<open>-62135596801000\<close>, the 64-bit millisecond reading of that second.
\<close>

theorem expiry_derivation_witness:
  "CreateOrder_commit example_env example_params (Some example_metadata) example_price ''42''
     = Inr example_locals
   \<and> valid_Time (ExpireTime example_params)
   \<and> unix_ms (ExpireTime example_params) = 1700000000000
   \<and> int64_range (unix_ms (ExpireTime example_params) + 9 * 24 * 60 * 60 * 1000)
   \<and> l2ExpireTime example_locals = 1700777600000
   \<and> l2ExpireHour example_locals = 472438
   \<and> \<lfloor>(1700777600000 :: rat) / 3600000\<rfloor> = 472438
   \<and> commitment_expiry (hashArgs example_locals) = 472438
   \<and> map_of (CreateOrder_body example_env example_params example_locals example_signature)
        ''l2ExpireTime'' = Some (FInt 1700777600000)
   \<and> CreateOrder_commit example_env
        (example_params\<lparr>ExpireTime := Unix 9223371974719179007 0\<rparr>)
        (Some example_metadata) example_price ''42''
     = Inr example_locals_last
   \<and> valid_Time (Unix 9223371974719179007 0)
   \<and> 2 ^ 63 \<le> internalSec (Unix 9223371974719179007 0) + 9 * 24 * 60 * 60
   \<and> to_int64 (unix_ms (last_second (Unix 9223371974719179007 0))) = - 62135596801000
   \<and> l2ExpireTime example_locals_last = - 62135596801000"
proof -
  have v: "valid_Time (ExpireTime example_params)"
    by (simp add: valid_Time_def example_params_def Unix_def unixToInternal_def to_int64_def
        int64_range_def)
  have w: "valid_Time (ExpireTime (example_params\<lparr>ExpireTime := Unix 9223371974719179007 0\<rparr>))"
    by (simp add: valid_Time_def Unix_def unixToInternal_def to_int64_def int64_range_def)
  from expiry_derivation [OF example_commit v, of example_signature]
    expiry_derivation [OF example_commit_last w, of example_signature]
    example_commit example_commit_last v w
  show ?thesis
    by (simp add: example_params_def example_locals_def example_locals_last_def unix_ms_def
        int64_range_def Unix_def unixToInternal_def to_int64_def last_second_def
        commitment_expiry_def)
qed

section \<open>The client order identifier and the nonce\<close>

text \<open>
  Claim C1 as stated fails: line 109 draws the client order identifier anew in every call, so
  two calls on the same order and metadata need not agree on it, nor on the nonce derived from
  it. On the sample order the draws \<open>42\<close> and \<open>1077\<close> give two identifiers and, with a
  nonce transform that tells them apart, two nonces.
\<close>

theorem client_order_id_counterexample:
  "map_sum id clientOrderId
     (CreateOrder_commit example_env example_params (Some example_metadata) example_price ''42'')
     = Inr ''42''
   \<and> map_sum id clientOrderId
     (CreateOrder_commit example_env example_params (Some example_metadata) example_price ''1077'')
     = Inr ''1077''
   \<and> map_sum id nonce
     (CreateOrder_commit example_env example_params (Some example_metadata) example_price ''42'')
     = Inr 2
   \<and> map_sum id nonce
     (CreateOrder_commit example_env example_params (Some example_metadata) example_price ''1077'')
     = Inr 4"
  by (simp add: eval_defs Let_def)

text \<open>
  Claim C1, amended. The nonce is \<^verbatim>\<open>CalcNonce\<close> of the client order identifier and of
  nothing else, and the identifier is what the call draws. Whether the commitment is built,
  the two amounts, the fee cap and both expiry values do not depend on the draw; two calls on
  the same inputs that draw the same identifier agree on the nonce, on the hash input and on
  the hash.
\<close>

theorem nonce_of_client_order_id:
  assumes "CreateOrder_commit c params metadata l2Price d1 = Inr l1"
  shows "\<exists>l2. CreateOrder_commit c params metadata l2Price d2 = Inr l2
       \<and> clientOrderId l1 = d1 \<and> clientOrderId l2 = d2
       \<and> nonce l1 = CalcNonce c (clientOrderId l1) \<and> nonce l2 = CalcNonce c (clientOrderId l2)
       \<and> amountSynthetic l2 = amountSynthetic l1 \<and> amountCollateral l2 = amountCollateral l1
       \<and> limitFee l2 = limitFee l1 \<and> maxAmountFee l2 = maxAmountFee l1
       \<and> l2ExpireTime l2 = l2ExpireTime l1 \<and> l2ExpireHour l2 = l2ExpireHour l1
       \<and> (clientOrderId l2 = clientOrderId l1 \<longrightarrow>
            nonce l2 = nonce l1 \<and> hashArgs l2 = hashArgs l1 \<and> msgHash l2 = msgHash l1)"
  using assms
  by (auto simp: CreateOrder_commit_def Let_def split: option.splits)

text \<open>Claim C1 on the sample order, drawn twice with the identifier \<open>42\<close>.\<close>

theorem nonce_of_client_order_id_witness:
  "\<exists>l2. CreateOrder_commit example_env example_params (Some example_metadata) example_price ''42''
          = Inr l2
       \<and> clientOrderId l2 = ''42'' \<and> nonce l2 = 2 \<and> amountSynthetic l2 = 1999999
       \<and> hashArgs l2 = hashArgs example_locals \<and> msgHash l2 = ''hash''"
  using nonce_of_client_order_id [OF example_commit, of "''42''"]
  by (auto simp: example_locals_def example_env_def)

section \<open>The hash input\<close>



section \<open>Unparseable decimals\<close>

text \<open>
  Claim C6 as stated fails in three ways. The price string of the order is never parsed (the
  price that enters the computation is the decimal \<^verbatim>\<open>l2Price\<close>), so an order whose price
  string is \<^verbatim>\<open>abc\<close> is hashed, signed and sent like any other. An unparseable size does
  make the call fail, but with the error of an earlier step when there is one: with an
  unknown contract the error is contract-not-found, and with an unparseable fee rate and a
  product of price and size whose exponent leaves 32 bits the call ends in the panic of the
  multiplication. And the empty fee-rate string, which is no parseable decimal, is no error:
  it selects the default rate.
\<close>

theorem price_string_counterexample:
  "NewFromString ''abc'' = None
   \<and> CreateOrder example_env (example_params\<lparr>Price := ''abc''\<rparr>) (Some example_metadata)
        example_price ''42''
     = (Inr \<lparr>Code = ''SUCCESS'', ErrorMsg = [], ErrorParam = (), Data = ()\<rparr>,
        example_params\<lparr>Price := ''abc'', TimeInForce := ''GOOD_TIL_CANCEL''\<rparr>,
        [Hashed (hashArgs example_locals), Signed ''hash'',
         Requested ''https://x/api/v1/private/order/createOrder'' ''POST''
           (CreateOrder_body example_env
              (example_params\<lparr>Price := ''abc'', TimeInForce := ''GOOD_TIL_CANCEL''\<rparr>)
              example_locals example_signature)])
   \<and> CreateOrder example_env (example_params\<lparr>ContractId := ''10000002'', Size := ''abc''\<rparr>)
        (Some example_metadata) example_price ''42''
     = (Inl (ContractNotFound ''10000002''),
        example_params\<lparr>ContractId := ''10000002'', Size := ''abc'',
                        TimeInForce := ''GOOD_TIL_CANCEL''\<rparr>, [])
   \<and> fst (CreateOrder example_env (example_params\<lparr>Size := ''1e2147483647''\<rparr>)
          (Some (example_metadata
             \<lparr>ContractList := [example_contract\<lparr>Contract_DefaultTakerFeeRate := ''5%''\<rparr>]\<rparr>))
          \<lparr>dvalue = 1, dexp = 1\<rparr> ''42'')
     = Inl ExponentOverflowPanic
   \<and> NewFromString [] = None
   \<and> map_sum id feeRate
        (CreateOrder_commit example_env example_params
           (Some (example_metadata
              \<lparr>ContractList := [example_contract\<lparr>Contract_DefaultTakerFeeRate := []\<rparr>]\<rparr>))
           example_price ''42'')
     = Inr \<lparr>dvalue = 1, dexp = - 3\<rparr>"
proof -
  have n: "NewFromString ''abc'' = None" "NewFromString [] = None"
    by (simp_all add: parse_defs)
  have p: "default_TimeInForce (example_params\<lparr>Price := ''abc''\<rparr>)
      = example_params\<lparr>Price := ''abc'', TimeInForce := ''GOOD_TIL_CANCEL''\<rparr>"
    by (simp add: default_TimeInForce_def example_params_def OrderTypeMarket_def
        OrderTypeLimit_def TimeInForce_GOOD_TIL_CANCEL_def)
  have c: "CreateOrder_commit example_env
      (example_params\<lparr>Price := ''abc'', TimeInForce := ''GOOD_TIL_CANCEL''\<rparr>)
      (Some example_metadata) example_price ''42'' = Inr example_locals"
  proof -
    have "CreateOrder_commit example_env
        (default_TimeInForce (example_params\<lparr>Price := ''abc''\<rparr>))
        (Some example_metadata) example_price ''42'' = Inr example_locals"
      by (simp only: commit_ignores_TimeInForce commit_ignores_Price example_commit)
    then show ?thesis by (simp only: p)
  qed
  have a: "CreateOrder example_env (example_params\<lparr>Price := ''abc''\<rparr>) (Some example_metadata)
        example_price ''42''
     = (Inr \<lparr>Code = ''SUCCESS'', ErrorMsg = [], ErrorParam = (), Data = ()\<rparr>,
        example_params\<lparr>Price := ''abc'', TimeInForce := ''GOOD_TIL_CANCEL''\<rparr>,
        [Hashed (hashArgs example_locals), Signed ''hash'',
         Requested ''https://x/api/v1/private/order/createOrder'' ''POST''
           (CreateOrder_body example_env
              (example_params\<lparr>Price := ''abc'', TimeInForce := ''GOOD_TIL_CANCEL''\<rparr>)
              example_locals example_signature)])"
    unfolding CreateOrder_def Let_def p c
    by (simp add: example_env_def example_locals_def CreateOrder_interpret_def)
  have q: "default_TimeInForce (example_params\<lparr>ContractId := ''10000002'', Size := ''abc''\<rparr>)
      = example_params\<lparr>ContractId := ''10000002'', Size := ''abc'',
                        TimeInForce := ''GOOD_TIL_CANCEL''\<rparr>"
    by (simp add: default_TimeInForce_def example_params_def OrderTypeMarket_def
        OrderTypeLimit_def TimeInForce_GOOD_TIL_CANCEL_def)
  have "CreateOrder_commit example_env
      (example_params\<lparr>ContractId := ''10000002'', Size := ''abc''\<rparr>)
      (Some example_metadata) example_price ''42'' = Inl (ContractNotFound ''10000002'')"
    by (simp add: CreateOrder_commit_def find_contract_def example_defs)
  from CreateOrder_commit_Inl [OF this]
  have b: "CreateOrder example_env (example_params\<lparr>ContractId := ''10000002'', Size := ''abc''\<rparr>)
        (Some example_metadata) example_price ''42''
     = (Inl (ContractNotFound ''10000002''),
        example_params\<lparr>ContractId := ''10000002'', Size := ''abc'',
                        TimeInForce := ''GOOD_TIL_CANCEL''\<rparr>, [])"
    by (simp only: q)
  have "CreateOrder_commit example_env (example_params\<lparr>Size := ''1e2147483647''\<rparr>)
      (Some (example_metadata
         \<lparr>ContractList := [example_contract\<lparr>Contract_DefaultTakerFeeRate := ''5%''\<rparr>]\<rparr>))
      \<lparr>dvalue = 1, dexp = 1\<rparr> ''42'' = Inl ExponentOverflowPanic"
    by (simp add: CreateOrder_commit_def find_contract_def find_quoteCoin_def Mul_def
        parse_defs example_defs)
  from CreateOrder_commit_Inl [OF this]
  have d: "fst (CreateOrder example_env (example_params\<lparr>Size := ''1e2147483647''\<rparr>)
          (Some (example_metadata
             \<lparr>ContractList := [example_contract\<lparr>Contract_DefaultTakerFeeRate := ''5%''\<rparr>]\<rparr>))
          \<lparr>dvalue = 1, dexp = 1\<rparr> ''42'')
     = Inl ExponentOverflowPanic"
    by simp
  from n a b d example_commit_default_fee show ?thesis by simp
qed

text \<open>
  Claim C6, amended. Whenever the size string is not a parseable decimal, or the fee-rate
  string of the contract found is not empty and not a parseable decimal, the call fails and
  nothing is hashed, signed or sent. The failure is the size error once the contract and its
  quote coin are found and both resolutions parse, and the fee-rate error once, in addition,
  the size parses and the exponent of price times size fits 32 bits. The price string is
  never parsed: it does not enter the commitment and is sent as it is in every request. An
  empty fee-rate string selects the default rate \<open>0.001\<close>.
\<close>

theorem decimal_parse_errors:
  "(NewFromString (Size params) = None \<longrightarrow>
      (\<exists>e. fst (CreateOrder c params metadata l2Price drawn) = Inl e)
      \<and> snd (snd (CreateOrder c params metadata l2Price drawn)) = [])
   \<and> (\<forall>ct. find_contract metadata (ContractId params) = Some ct
          \<and> Contract_DefaultTakerFeeRate ct \<noteq> []
          \<and> NewFromString (Contract_DefaultTakerFeeRate ct) = None \<longrightarrow>
      (\<exists>e. fst (CreateOrder c params metadata l2Price drawn) = Inl e)
      \<and> snd (snd (CreateOrder c params metadata l2Price drawn)) = [])
   \<and> (\<forall>ct qc sf qf. find_contract metadata (ContractId params) = Some ct
          \<and> find_quoteCoin metadata (Contract_QuoteCoinId ct) = Some qc
          \<and> HexToBigInteger c (Contract_StarkExResolution ct) = Some sf
          \<and> HexToBigInteger c (Coin_StarkExResolution qc) = Some qf \<longrightarrow>
        (NewFromString (Size params) = None \<longrightarrow>
           CreateOrder c params metadata l2Price drawn
             = (Inl ParseSizeFailed, default_TimeInForce params, []))
        \<and> (\<forall>size'. NewFromString (Size params) = Some size'
              \<and> exp_range (dexp l2Price + dexp size')
              \<and> Contract_DefaultTakerFeeRate ct \<noteq> []
              \<and> NewFromString (Contract_DefaultTakerFeeRate ct) = None \<longrightarrow>
           CreateOrder c params metadata l2Price drawn
             = (Inl ParseFeeRateFailed, default_TimeInForce params, [])))
   \<and> CreateOrder_commit c (params\<lparr>Price := s\<rparr>) metadata l2Price drawn
       = CreateOrder_commit c params metadata l2Price drawn
   \<and> (\<forall>url method body.
        Requested url method body \<in> set (snd (snd (CreateOrder c params metadata l2Price drawn)))
        \<longrightarrow> map_of body ''price'' = Some (FStr (Price params)))
   \<and> (\<forall>l. CreateOrder_commit c params metadata l2Price drawn = Inr l
          \<and> Contract_DefaultTakerFeeRate (contract l) = [] \<longrightarrow>
        feeRate l = \<lparr>dvalue = 1, dexp = - 3\<rparr> \<and> dec_val (feeRate l) = 1 / 1000)"
proof -
  have fails: "(\<exists>e. fst (CreateOrder c params metadata l2Price drawn) = Inl e)
      \<and> snd (snd (CreateOrder c params metadata l2Price drawn)) = []"
    if "\<exists>e. CreateOrder_commit c params metadata l2Price drawn = Inl e"
  proof -
    from that obtain e where "CreateOrder_commit c params metadata l2Price drawn = Inl e"
      by blast
    from CreateOrder_commit_Inl [OF this] show ?thesis by simp
  qed
  have a: "NewFromString (Size params) = None \<longrightarrow>
      (\<exists>e. fst (CreateOrder c params metadata l2Price drawn) = Inl e)
      \<and> snd (snd (CreateOrder c params metadata l2Price drawn)) = []"
    using fails commit_fails_on_size by blast
  have b: "\<forall>ct. find_contract metadata (ContractId params) = Some ct
        \<and> Contract_DefaultTakerFeeRate ct \<noteq> []
        \<and> NewFromString (Contract_DefaultTakerFeeRate ct) = None \<longrightarrow>
      (\<exists>e. fst (CreateOrder c params metadata l2Price drawn) = Inl e)
      \<and> snd (snd (CreateOrder c params metadata l2Price drawn)) = []"
  proof (intro allI impI, elim conjE)
    fix ct
    assume f: "find_contract metadata (ContractId params) = Some ct"
      and "Contract_DefaultTakerFeeRate ct \<noteq> []"
        "NewFromString (Contract_DefaultTakerFeeRate ct) = None"
    then have "get_feeRate ct = None" by (simp add: get_feeRate_def)
    from fails [OF commit_fails_on_feeRate [OF f this]]
    show "(\<exists>e. fst (CreateOrder c params metadata l2Price drawn) = Inl e)
      \<and> snd (snd (CreateOrder c params metadata l2Price drawn)) = []" .
  qed
  have k: "\<forall>ct qc sf qf. find_contract metadata (ContractId params) = Some ct
          \<and> find_quoteCoin metadata (Contract_QuoteCoinId ct) = Some qc
          \<and> HexToBigInteger c (Contract_StarkExResolution ct) = Some sf
          \<and> HexToBigInteger c (Coin_StarkExResolution qc) = Some qf \<longrightarrow>
        (NewFromString (Size params) = None \<longrightarrow>
           CreateOrder c params metadata l2Price drawn
             = (Inl ParseSizeFailed, default_TimeInForce params, []))
        \<and> (\<forall>size'. NewFromString (Size params) = Some size'
              \<and> exp_range (dexp l2Price + dexp size')
              \<and> Contract_DefaultTakerFeeRate ct \<noteq> []
              \<and> NewFromString (Contract_DefaultTakerFeeRate ct) = None \<longrightarrow>
           CreateOrder c params metadata l2Price drawn
             = (Inl ParseFeeRateFailed, default_TimeInForce params, []))"
  proof (intro allI impI conjI; elim conjE)
    fix ct qc sf qf
    assume l: "find_contract metadata (ContractId params) = Some ct"
      "find_quoteCoin metadata (Contract_QuoteCoinId ct) = Some qc"
      "HexToBigInteger c (Contract_StarkExResolution ct) = Some sf"
      "HexToBigInteger c (Coin_StarkExResolution qc) = Some qf"
    {
      assume "NewFromString (Size params) = None"
      with l have "CreateOrder_commit c params metadata l2Price drawn = Inl ParseSizeFailed"
        by (simp add: CreateOrder_commit_def)
      then show "CreateOrder c params metadata l2Price drawn
          = (Inl ParseSizeFailed, default_TimeInForce params, [])"
        by (rule CreateOrder_commit_Inl)
    next
      fix size'
      assume s: "NewFromString (Size params) = Some size'"
        and e: "exp_range (dexp l2Price + dexp size')"
        and f: "Contract_DefaultTakerFeeRate ct \<noteq> []"
          "NewFromString (Contract_DefaultTakerFeeRate ct) = None"
      have "get_feeRate ct = None" using f by (simp add: get_feeRate_def)
      with l s e NewFromString_exp_range [OF s]
      have "CreateOrder_commit c params metadata l2Price drawn = Inl ParseFeeRateFailed"
        by (simp add: CreateOrder_commit_def Mul_def NewFromBigInt_def)
      then show "CreateOrder c params metadata l2Price drawn
          = (Inl ParseFeeRateFailed, default_TimeInForce params, [])"
        by (rule CreateOrder_commit_Inl)
    }
  qed
  have r: "\<forall>url method body.
        Requested url method body \<in> set (snd (snd (CreateOrder c params metadata l2Price drawn)))
        \<longrightarrow> map_of body ''price'' = Some (FStr (Price params))"
  proof (intro allI impI)
    fix url meth body
    assume "Requested url meth body
        \<in> set (snd (snd (CreateOrder c params metadata l2Price drawn)))"
    from CreateOrder_Requested [OF this] show "map_of body ''price'' = Some (FStr (Price params))"
      by (auto simp: map_of_body_price)
  qed
  have d: "\<forall>l. CreateOrder_commit c params metadata l2Price drawn = Inr l
          \<and> Contract_DefaultTakerFeeRate (contract l) = [] \<longrightarrow>
        feeRate l = \<lparr>dvalue = 1, dexp = - 3\<rparr> \<and> dec_val (feeRate l) = 1 / 1000"
  proof (intro allI impI, elim conjE)
    fix l
    assume "CreateOrder_commit c params metadata l2Price drawn = Inr l"
      and "Contract_DefaultTakerFeeRate (contract l) = []"
    with commit_feeRate [of c params metadata l2Price drawn l] get_feeRate_default [of "contract l"]
    have "feeRate l = \<lparr>dvalue = 1, dexp = - 3\<rparr>" by simp
    then show "feeRate l = \<lparr>dvalue = 1, dexp = - 3\<rparr> \<and> dec_val (feeRate l) = 1 / 1000"
      by (simp add: dec_val_def)
  qed
  from a b k r d commit_ignores_Price [where c = c and p = params and s = s]
  show ?thesis by (intro conjI)
qed

text \<open>
  Claim C6 on the sample order with the size \<^verbatim>\<open>abc\<close>, with the contract's fee rate
  \<^verbatim>\<open>5%\<close>, as it is (the request carries the price string \<^verbatim>\<open>3.5\<close>), and with an empty
  fee rate.
\<close>

theorem decimal_parse_errors_witness:
  "CreateOrder example_env (example_params\<lparr>Size := ''abc''\<rparr>) (Some example_metadata)
     example_price ''42''
     = (Inl ParseSizeFailed, default_TimeInForce (example_params\<lparr>Size := ''abc''\<rparr>), [])
   \<and> CreateOrder example_env example_params
       (Some (example_metadata
          \<lparr>ContractList := [example_contract\<lparr>Contract_DefaultTakerFeeRate := ''5%''\<rparr>]\<rparr>))
       example_price ''42''
     = (Inl ParseFeeRateFailed, default_TimeInForce example_params, [])
   \<and> map_of (CreateOrder_body example_env (example_params\<lparr>TimeInForce := ''GOOD_TIL_CANCEL''\<rparr>)
               example_locals example_signature) ''price''
     = Some (FStr ''3.5'')
   \<and> CreateOrder_commit example_env example_params
       (Some (example_metadata
          \<lparr>ContractList := [example_contract\<lparr>Contract_DefaultTakerFeeRate := []\<rparr>]\<rparr>))
       example_price ''42''
     = Inr (example_locals
              \<lparr>contract := example_contract\<lparr>Contract_DefaultTakerFeeRate := []\<rparr>,
               feeRate := \<lparr>dvalue = 1, dexp = - 3\<rparr>\<rparr>)
   \<and> dec_val (feeRate (example_locals
              \<lparr>contract := example_contract\<lparr>Contract_DefaultTakerFeeRate := []\<rparr>,
               feeRate := \<lparr>dvalue = 1, dexp = - 3\<rparr>\<rparr>)) = 1 / 1000"
proof -
  have a1: "find_contract (Some example_metadata) (ContractId (example_params\<lparr>Size := ''abc''\<rparr>))
      = Some example_contract"
    by (simp add: find_contract_def example_defs)
  have a2: "find_quoteCoin (Some example_metadata) (Contract_QuoteCoinId example_contract)
      = Some example_coin"
    by (simp add: find_quoteCoin_def example_defs)
  have a3: "HexToBigInteger example_env (Contract_StarkExResolution example_contract)
      = Some 1000000"
    by (simp add: example_defs)
  have a4: "HexToBigInteger example_env (Coin_StarkExResolution example_coin) = Some 1000000"
    by (simp add: example_defs)
  have n: "NewFromString (Size (example_params\<lparr>Size := ''abc''\<rparr>)) = None"
    by (simp add: parse_defs)
  have b1: "find_contract
      (Some (example_metadata
         \<lparr>ContractList := [example_contract\<lparr>Contract_DefaultTakerFeeRate := ''5%''\<rparr>]\<rparr>))
      (ContractId example_params)
      = Some (example_contract\<lparr>Contract_DefaultTakerFeeRate := ''5%''\<rparr>)"
    by (simp add: find_contract_def example_defs)
  have b2: "find_quoteCoin
      (Some (example_metadata
         \<lparr>ContractList := [example_contract\<lparr>Contract_DefaultTakerFeeRate := ''5%''\<rparr>]\<rparr>))
      (Contract_QuoteCoinId (example_contract\<lparr>Contract_DefaultTakerFeeRate := ''5%''\<rparr>))
      = Some example_coin"
    by (simp add: find_quoteCoin_def example_defs)
  have b3: "HexToBigInteger example_env
      (Contract_StarkExResolution (example_contract\<lparr>Contract_DefaultTakerFeeRate := ''5%''\<rparr>))
      = Some 1000000"
    by (simp add: example_defs)
  have s: "NewFromString (Size example_params) = Some \<lparr>dvalue = 19999999, dexp = - 7\<rparr>"
    by (simp add: parse_defs example_params_def)
  have e: "exp_range (dexp example_price + dexp \<lparr>dvalue = 19999999, dexp = - 7\<rparr>)"
    by (simp add: exp_range_def example_price_def)
  have f: "Contract_DefaultTakerFeeRate
      (example_contract\<lparr>Contract_DefaultTakerFeeRate := ''5%''\<rparr>) \<noteq> []"
    "NewFromString (Contract_DefaultTakerFeeRate
       (example_contract\<lparr>Contract_DefaultTakerFeeRate := ''5%''\<rparr>)) = None"
    by (simp_all add: parse_defs)
  have r: "Requested ''https://x/api/v1/private/order/createOrder'' ''POST''
         (CreateOrder_body example_env (example_params\<lparr>TimeInForce := ''GOOD_TIL_CANCEL''\<rparr>)
            example_locals example_signature)
      \<in> set (snd (snd (CreateOrder example_env example_params (Some example_metadata)
                          example_price ''42'')))"
    by (simp add: example_CreateOrder)
  have p: "Price example_params = ''3.5''"
    by (simp add: example_params_def)
  have g: "Contract_DefaultTakerFeeRate
      (contract (example_locals
              \<lparr>contract := example_contract\<lparr>Contract_DefaultTakerFeeRate := []\<rparr>,
               feeRate := \<lparr>dvalue = 1, dexp = - 3\<rparr>\<rparr>)) = []"
    by simp
  from decimal_parse_errors
      [where c = example_env and params = "example_params\<lparr>Size := ''abc''\<rparr>"
         and metadata = "Some example_metadata" and ?l2Price = example_price
         and drawn = "''42''"]
    a1 a2 a3 a4 n
  have 1: "CreateOrder example_env (example_params\<lparr>Size := ''abc''\<rparr>) (Some example_metadata)
     example_price ''42''
     = (Inl ParseSizeFailed, default_TimeInForce (example_params\<lparr>Size := ''abc''\<rparr>), [])"
    by blast
  from decimal_parse_errors
      [where c = example_env and params = example_params
         and metadata = "Some (example_metadata
          \<lparr>ContractList := [example_contract\<lparr>Contract_DefaultTakerFeeRate := ''5%''\<rparr>]\<rparr>)"
         and ?l2Price = example_price and drawn = "''42''"]
    b1 b2 b3 a4 s e f
  have 2: "CreateOrder example_env example_params
       (Some (example_metadata
          \<lparr>ContractList := [example_contract\<lparr>Contract_DefaultTakerFeeRate := ''5%''\<rparr>]\<rparr>))
       example_price ''42''
     = (Inl ParseFeeRateFailed, default_TimeInForce example_params, [])"
    by blast
  from decimal_parse_errors
      [where c = example_env and params = example_params
         and metadata = "Some example_metadata" and ?l2Price = example_price
         and drawn = "''42''"]
    r p
  have 3: "map_of (CreateOrder_body example_env
               (example_params\<lparr>TimeInForce := ''GOOD_TIL_CANCEL''\<rparr>)
               example_locals example_signature) ''price''
     = Some (FStr ''3.5'')"
    by (simp only:)
  from decimal_parse_errors
      [where c = example_env and params = example_params
         and metadata = "Some (example_metadata
          \<lparr>ContractList := [example_contract\<lparr>Contract_DefaultTakerFeeRate := []\<rparr>]\<rparr>)"
         and ?l2Price = example_price and drawn = "''42''"]
    example_commit_default_fee g
  have 4: "dec_val (feeRate (example_locals
              \<lparr>contract := example_contract\<lparr>Contract_DefaultTakerFeeRate := []\<rparr>,
               feeRate := \<lparr>dvalue = 1, dexp = - 3\<rparr>\<rparr>)) = 1 / 1000"
    by blast
  from 1 2 3 4 example_commit_default_fee show ?thesis by (intro conjI)
qed

section \<open>Unknown contract, unknown coin\<close>

text \<open>
  Claim C7. When the contract identifier of the order is that of no contract of the metadata
  (or the metadata is \<^verbatim>\<open>nil\<close>), the call fails with the contract-not-found error; when the
  contract is found and its quote coin identifier is that of no coin of the metadata, it fails
  with the coin-not-found error. In both cases nothing is hashed, signed or sent, whatever the
  size, the fee rate and the resolutions are.
\<close>

theorem lookup_failures:
  "(ContractId params
      \<notin> Contract_ContractId ` set (case metadata of None \<Rightarrow> [] | Some m \<Rightarrow> ContractList m)
      \<longrightarrow> CreateOrder c params metadata l2Price drawn
            = (Inl (ContractNotFound (ContractId params)), default_TimeInForce params, []))
   \<and> (\<forall>ct. find_contract metadata (ContractId params) = Some ct
          \<and> Contract_QuoteCoinId ct
              \<notin> Coin_CoinId ` set (case metadata of None \<Rightarrow> [] | Some m \<Rightarrow> CoinList m)
      \<longrightarrow> CreateOrder c params metadata l2Price drawn
            = (Inl (CoinNotFound (Contract_QuoteCoinId ct)), default_TimeInForce params, []))"
proof (intro conjI allI impI)
  assume "ContractId params
      \<notin> Contract_ContractId ` set (case metadata of None \<Rightarrow> [] | Some m \<Rightarrow> ContractList m)"
  then have "CreateOrder_commit c params metadata l2Price drawn
      = Inl (ContractNotFound (ContractId params))"
    by (simp add: CreateOrder_commit_def find_contract_None)
  then show "CreateOrder c params metadata l2Price drawn
      = (Inl (ContractNotFound (ContractId params)), default_TimeInForce params, [])"
    by (rule CreateOrder_commit_Inl)
next
  fix ct
  assume "find_contract metadata (ContractId params) = Some ct
      \<and> Contract_QuoteCoinId ct
          \<notin> Coin_CoinId ` set (case metadata of None \<Rightarrow> [] | Some m \<Rightarrow> CoinList m)"
  then have "CreateOrder_commit c params metadata l2Price drawn
      = Inl (CoinNotFound (Contract_QuoteCoinId ct))"
    by (simp add: CreateOrder_commit_def find_quoteCoin_None)
  then show "CreateOrder c params metadata l2Price drawn
      = (Inl (CoinNotFound (Contract_QuoteCoinId ct)), default_TimeInForce params, [])"
    by (rule CreateOrder_commit_Inl)
qed

text \<open>
  Claim C7 on the sample order with an unknown contract identifier, with no metadata, and
  with an empty coin list.
\<close>

theorem lookup_failures_witness:
  "CreateOrder example_env (example_params\<lparr>ContractId := ''10000002''\<rparr>) (Some example_metadata)
     example_price ''42''
     = (Inl (ContractNotFound ''10000002''),
        default_TimeInForce (example_params\<lparr>ContractId := ''10000002''\<rparr>), [])
   \<and> CreateOrder example_env (example_params\<lparr>ContractId := ''10000002''\<rparr>) None
     example_price ''42''
     = (Inl (ContractNotFound ''10000002''),
        default_TimeInForce (example_params\<lparr>ContractId := ''10000002''\<rparr>), [])
   \<and> CreateOrder example_env example_params (Some (example_metadata\<lparr>CoinList := []\<rparr>))
     example_price ''42''
     = (Inl (CoinNotFound ''1000''), default_TimeInForce example_params, [])"
proof -
  have a: "ContractId (example_params\<lparr>ContractId := ''10000002''\<rparr>)
      \<notin> Contract_ContractId `
          set (case Some example_metadata of None \<Rightarrow> [] | Some m \<Rightarrow> ContractList m)"
    by (simp add: example_defs)
  have b: "ContractId (example_params\<lparr>ContractId := ''10000002''\<rparr>)
      \<notin> Contract_ContractId ` set (case None of None \<Rightarrow> [] | Some m \<Rightarrow> ContractList m)"
    by simp
  have c: "find_contract (Some (example_metadata\<lparr>CoinList := []\<rparr>)) (ContractId example_params)
      = Some example_contract
    \<and> Contract_QuoteCoinId example_contract
      \<notin> Coin_CoinId ` set (case Some (example_metadata\<lparr>CoinList := []\<rparr>) of
                             None \<Rightarrow> [] | Some m \<Rightarrow> CoinList m)"
    by (simp add: find_contract_def example_defs)
  have q: "Contract_QuoteCoinId example_contract = ''1000''"
    by (simp add: example_contract_def)
  from lookup_failures [of "example_params\<lparr>ContractId := ''10000002''\<rparr>" "Some example_metadata"
        example_env example_price "''42''"] a
    lookup_failures [of "example_params\<lparr>ContractId := ''10000002''\<rparr>" None
        example_env example_price "''42''"] b
    lookup_failures [of example_params "Some (example_metadata\<lparr>CoinList := []\<rparr>)"
        example_env example_price "''42''"] c q
  show ?thesis by (simp del: default_TimeInForce_fields) 
qed

section \<open>The response envelope\<close>

text \<open>
  Claim C8 as stated fails for \<^verbatim>\<open>CancelOrder\<close>: a decoded response without a code, or with
  a code that is not a string, is returned as a success, and the error for a code other than
  \<^verbatim>\<open>SUCCESS\<close> carries the code alone, without the message the exchange sent.
\<close>

theorem cancel_interpretation_counterexample:
  "(CancelOrder_interpret (Map.empty(''msg'' \<mapsto> JString ''order not found''))
      :: unit error + (string \<Rightarrow> json option))
     = Inr (Map.empty(''msg'' \<mapsto> JString ''order not found''))
   \<and> (CancelOrder_interpret (Map.empty(''code'' \<mapsto> JNumber 500))
      :: unit error + (string \<Rightarrow> json option))
     = Inr (Map.empty(''code'' \<mapsto> JNumber 500))
   \<and> (CancelOrder_interpret
        (Map.empty(''code'' \<mapsto> JString ''INVALID_ORDER'', ''msg'' \<mapsto> JString ''order not found''))
      :: unit error + (string \<Rightarrow> json option))
     = Inl (RequestFailedCode ''INVALID_ORDER'')"
  by (simp add: CancelOrder_interpret_def)

text \<open>
  Claim C8, amended. \<^verbatim>\<open>CreateOrder\<close> returns the envelope exactly when its code is
  \<^verbatim>\<open>SUCCESS\<close>; for any other code it fails with an error that carries the code and the
  error parameters, and the message when there is one. \<^verbatim>\<open>CancelOrder\<close> fails exactly
  when the decoded map has a string under \<^verbatim>\<open>code\<close> that is not \<^verbatim>\<open>SUCCESS\<close>, with an
  error that carries that code alone; every other map is returned as it is.
\<close>

theorem response_interpretation:
  "(Code r = ''SUCCESS'' \<longrightarrow> CreateOrder_interpret r = Inr r)
   \<and> (Code r \<noteq> ''SUCCESS'' \<and> ErrorMsg r \<noteq> [] \<longrightarrow>
        CreateOrder_interpret r = Inl (RequestFailedMsg (ErrorMsg r) (Code r) (ErrorParam r)))
   \<and> (Code r \<noteq> ''SUCCESS'' \<and> ErrorMsg r = [] \<longrightarrow>
        CreateOrder_interpret r = Inl (RequestFailedCodeParam (Code r) (ErrorParam r)))
   \<and> (\<forall>code. m ''code'' = Some (JString code) \<and> code \<noteq> ''SUCCESS'' \<longrightarrow>
        (CancelOrder_interpret m :: 'q error + (string \<Rightarrow> json option))
          = Inl (RequestFailedCode code))
   \<and> ((\<forall>code. m ''code'' = Some (JString code) \<longrightarrow> code = ''SUCCESS'') \<longrightarrow>
        (CancelOrder_interpret m :: 'q error + (string \<Rightarrow> json option)) = Inr m)"
  by (auto simp: CreateOrder_interpret_def CancelOrder_interpret_def
      split: option.splits json.splits)

text \<open>Claim C8 on five envelopes, one for each case.\<close>

theorem response_interpretation_witness:
  "CreateOrder_interpret \<lparr>Code = ''SUCCESS'', ErrorMsg = [], ErrorParam = (), Data = ()\<rparr>
     = Inr \<lparr>Code = ''SUCCESS'', ErrorMsg = [], ErrorParam = (), Data = ()\<rparr>
   \<and> CreateOrder_interpret
       \<lparr>Code = ''INVALID_ORDER'', ErrorMsg = ''bad size'', ErrorParam = [(''size'', ''0'')],
        Data = ()\<rparr>
     = Inl (RequestFailedMsg ''bad size'' ''INVALID_ORDER'' [(''size'', ''0'')])
   \<and> CreateOrder_interpret
       \<lparr>Code = ''INVALID_ORDER'', ErrorMsg = [], ErrorParam = [(''size'', ''0'')], Data = ()\<rparr>
     = Inl (RequestFailedCodeParam ''INVALID_ORDER'' [(''size'', ''0'')])
   \<and> (CancelOrder_interpret (Map.empty(''code'' \<mapsto> JString ''INVALID_ORDER''))
        :: unit error + (string \<Rightarrow> json option))
     = Inl (RequestFailedCode ''INVALID_ORDER'')
   \<and> (CancelOrder_interpret (Map.empty(''code'' \<mapsto> JString ''SUCCESS''))
        :: unit error + (string \<Rightarrow> json option))
     = Inr (Map.empty(''code'' \<mapsto> JString ''SUCCESS''))"
  using
    response_interpretation
      [where r = "\<lparr>Code = ''SUCCESS'', ErrorMsg = [], ErrorParam = (), Data = ()\<rparr>"
         and m = "Map.empty(''code'' \<mapsto> JString ''INVALID_ORDER'')" and 'q = unit]
    response_interpretation
      [where r = "\<lparr>Code = ''INVALID_ORDER'', ErrorMsg = ''bad size'',
                    ErrorParam = [(''size'', ''0'')], Data = ()\<rparr>"
         and m = "Map.empty(''code'' \<mapsto> JString ''SUCCESS'')" and 'q = unit]
    response_interpretation
      [where r = "\<lparr>Code = ''INVALID_ORDER'', ErrorMsg = [],
                    ErrorParam = [(''size'', ''0'')], Data = ()\<rparr>"
         and m = "Map.empty(''code'' \<mapsto> JString ''SUCCESS'')" and 'q = unit]
  by simp

section \<open>The default time-in-force\<close>

text \<open>
  Claim C9. An empty time-in-force becomes immediate-or-cancel for a market order and
  good-til-cancel for a limit order; a time-in-force the caller gave is kept, and no other
  field of the order changes. The default is set before anything else: the call behaves as
  if it had been given the order with the default already set, and every request it sends
  carries that time-in-force.
\<close>

theorem default_time_in_force:
  assumes "CreateOrder c params metadata l2Price drawn = (res, params', evs)"
  shows "(TimeInForce params = [] \<and> Type params = OrderTypeMarket \<longrightarrow>
            TimeInForce params' = TimeInForce_IMMEDIATE_OR_CANCEL)
       \<and> (TimeInForce params = [] \<and> Type params = OrderTypeLimit \<longrightarrow>
            TimeInForce params' = TimeInForce_GOOD_TIL_CANCEL)
       \<and> (TimeInForce params \<noteq> [] \<longrightarrow> params' = params)
       \<and> params' = params\<lparr>TimeInForce := TimeInForce params'\<rparr>
       \<and> CreateOrder c params' metadata l2Price drawn = (res, params', evs)
       \<and> (\<forall>url method body. Requested url method body \<in> set evs \<longrightarrow>
            map_of body ''timeInForce'' = Some (FStr (TimeInForce params')))"
proof -
  have p: "params' = default_TimeInForce params"
    using CreateOrder_params [of c params metadata l2Price drawn] assms by simp
  have a: "(TimeInForce params = [] \<and> Type params = OrderTypeMarket \<longrightarrow>
            TimeInForce params' = TimeInForce_IMMEDIATE_OR_CANCEL)
       \<and> (TimeInForce params = [] \<and> Type params = OrderTypeLimit \<longrightarrow>
            TimeInForce params' = TimeInForce_GOOD_TIL_CANCEL)
       \<and> (TimeInForce params \<noteq> [] \<longrightarrow> params' = params)
       \<and> params' = params\<lparr>TimeInForce := TimeInForce params'\<rparr>"
    unfolding p
    by (simp add: default_TimeInForce_def OrderTypeMarket_def OrderTypeLimit_def)
  have i: "default_TimeInForce (default_TimeInForce params) = default_TimeInForce params"
    by (simp add: default_TimeInForce_def OrderTypeMarket_def OrderTypeLimit_def
        TimeInForce_IMMEDIATE_OR_CANCEL_def TimeInForce_GOOD_TIL_CANCEL_def)
  have b: "CreateOrder c params' metadata l2Price drawn = (res, params', evs)"
    using assms unfolding p CreateOrder_def i by simp
  have e: "\<forall>url method body. Requested url method body \<in> set evs \<longrightarrow>
      map_of body ''timeInForce'' = Some (FStr (TimeInForce params'))"
  proof (cases "CreateOrder_commit c params metadata l2Price drawn")
    case (Inl err)
    from CreateOrder_commit_Inl [OF Inl] assms show ?thesis by simp
  next
    case (Inr l)
    have "evs = snd (snd (CreateOrder c params metadata l2Price drawn))"
      using assms by simp
    then show ?thesis
      unfolding CreateOrder_events [OF Inr] p
      by (auto simp: map_of_body_timeInForce split: option.splits)
  qed
  from a b e show ?thesis by blast
qed

text \<open>
  Claim C9 on the sample order as a market order, as a limit order, and with the
  time-in-force \<^verbatim>\<open>POST_ONLY\<close> given by the caller.
\<close>

theorem default_time_in_force_witness:
  "TimeInForce (fst (snd (CreateOrder example_env (example_params\<lparr>Type := ''MARKET''\<rparr>)
       (Some example_metadata) example_price ''42''))) = ''IMMEDIATE_OR_CANCEL''
   \<and> TimeInForce (fst (snd (CreateOrder example_env example_params
       (Some example_metadata) example_price ''42''))) = ''GOOD_TIL_CANCEL''
   \<and> fst (snd (CreateOrder example_env (example_params\<lparr>TimeInForce := ''POST_ONLY''\<rparr>)
       (Some example_metadata) example_price ''42''))
       = example_params\<lparr>TimeInForce := ''POST_ONLY''\<rparr>
   \<and> map_of (CreateOrder_body example_env (example_params\<lparr>TimeInForce := ''GOOD_TIL_CANCEL''\<rparr>)
               example_locals example_signature) ''timeInForce''
       = Some (FStr ''GOOD_TIL_CANCEL'')"
proof -
  let ?m = "CreateOrder example_env (example_params\<lparr>Type := ''MARKET''\<rparr>)
       (Some example_metadata) example_price ''42''"
  let ?s = "CreateOrder example_env (example_params\<lparr>TimeInForce := ''POST_ONLY''\<rparr>)
       (Some example_metadata) example_price ''42''"
  have m: "?m = (fst ?m, fst (snd ?m), snd (snd ?m))" by simp
  have s: "?s = (fst ?s, fst (snd ?s), snd (snd ?s))" by simp
  have tm: "TimeInForce (example_params\<lparr>Type := ''MARKET''\<rparr>) = []
      \<and> Type (example_params\<lparr>Type := ''MARKET''\<rparr>) = OrderTypeMarket"
    by (simp add: example_params_def OrderTypeMarket_def)
  have tl: "TimeInForce example_params = [] \<and> Type example_params = OrderTypeLimit"
    by (simp add: example_params_def OrderTypeLimit_def)
  have ts: "TimeInForce (example_params\<lparr>TimeInForce := ''POST_ONLY''\<rparr>) \<noteq> []"
    by simp
  have r: "Requested ''https://x/api/v1/private/order/createOrder'' ''POST''
         (CreateOrder_body example_env (example_params\<lparr>TimeInForce := ''GOOD_TIL_CANCEL''\<rparr>)
            example_locals example_signature)
      \<in> set [Hashed (hashArgs example_locals), Signed ''hash'',
             Requested ''https://x/api/v1/private/order/createOrder'' ''POST''
               (CreateOrder_body example_env
                  (example_params\<lparr>TimeInForce := ''GOOD_TIL_CANCEL''\<rparr>)
                  example_locals example_signature)]"
    by simp
  from default_time_in_force [OF m] tm
  have 1: "TimeInForce (fst (snd ?m)) = ''IMMEDIATE_OR_CANCEL''"
    by (simp only: TimeInForce_IMMEDIATE_OR_CANCEL_def)
  from default_time_in_force [OF example_CreateOrder] tl r
  have 2: "TimeInForce (example_params\<lparr>TimeInForce := ''GOOD_TIL_CANCEL''\<rparr>) = ''GOOD_TIL_CANCEL''
      \<and> map_of (CreateOrder_body example_env
                  (example_params\<lparr>TimeInForce := ''GOOD_TIL_CANCEL''\<rparr>)
                  example_locals example_signature) ''timeInForce''
          = Some (FStr ''GOOD_TIL_CANCEL'')"
    by (simp add: map_of_body_timeInForce)
  from default_time_in_force [OF s] ts
  have 3: "fst (snd ?s) = example_params\<lparr>TimeInForce := ''POST_ONLY''\<rparr>"
    by blast
  from 1 2 3 example_CreateOrder show ?thesis by simp
qed

section \<open>The target of a cancellation\<close>

text \<open>
  Claim C10. The first field that is not empty, in the order \<^verbatim>\<open>OrderId\<close>, \<^verbatim>\<open>ClientId\<close>,
  \<^verbatim>\<open>ContractId\<close>, decides the one request that is sent: its endpoint and its body. With
  only \<^verbatim>\<open>ContractId\<close> set the URL is the bare path, without the base URL that the other
  two endpoints are prefixed with. With all three empty the call fails and sends nothing.
\<close>

theorem cancel_order_target:
  "(Cancel_OrderId p \<noteq> [] \<longrightarrow>
      snd (CancelOrder c p)
        = [Requested (GetBaseURL c @ ''/api/v1/private/order/cancelOrderById'') ''POST''
             [(''accountId'', FInt (GetAccountID c)),
              (''orderIdList'', FStrs [Cancel_OrderId p])]])
   \<and> (Cancel_OrderId p = [] \<and> Cancel_ClientId p \<noteq> [] \<longrightarrow>
      snd (CancelOrder c p)
        = [Requested (GetBaseURL c @ ''/api/v1/private/order/cancelOrderByClientOrderId'')
             ''POST''
             [(''accountId'', FInt (GetAccountID c)),
              (''clientOrderIdList'', FStrs [Cancel_ClientId p])]])
   \<and> (Cancel_OrderId p = [] \<and> Cancel_ClientId p = [] \<and> Cancel_ContractId p \<noteq> [] \<longrightarrow>
      snd (CancelOrder c p)
        = [Requested ''/api/v1/private/order/cancelAllOrder'' ''POST''
             [(''accountId'', FInt (GetAccountID c)),
              (''filterContractIdList'', FStrs [Cancel_ContractId p])]])
   \<and> (Cancel_OrderId p = [] \<and> Cancel_ClientId p = [] \<and> Cancel_ContractId p = [] \<longrightarrow>
      CancelOrder c p = (Inl MustProvideId, []))"
  by (simp add: CancelOrder_def CancelOrder_target_def Let_def
      split: http_result.splits option.splits)

text \<open>Claim C10 on four cancellations, one for each case.\<close>

theorem cancel_order_target_witness:
  "snd (CancelOrder example_env
          \<lparr>Cancel_OrderId = ''11'', Cancel_ClientId = ''22'', Cancel_ContractId = ''33''\<rparr>)
     = [Requested ''https://x/api/v1/private/order/cancelOrderById'' ''POST''
          [(''accountId'', FInt 7), (''orderIdList'', FStrs [''11''])]]
   \<and> snd (CancelOrder example_env
          \<lparr>Cancel_OrderId = [], Cancel_ClientId = ''22'', Cancel_ContractId = ''33''\<rparr>)
     = [Requested ''https://x/api/v1/private/order/cancelOrderByClientOrderId'' ''POST''
          [(''accountId'', FInt 7), (''clientOrderIdList'', FStrs [''22''])]]
   \<and> snd (CancelOrder example_env
          \<lparr>Cancel_OrderId = [], Cancel_ClientId = [], Cancel_ContractId = ''33''\<rparr>)
     = [Requested ''/api/v1/private/order/cancelAllOrder'' ''POST''
          [(''accountId'', FInt 7), (''filterContractIdList'', FStrs [''33''])]]
   \<and> CancelOrder example_env
          \<lparr>Cancel_OrderId = [], Cancel_ClientId = [], Cancel_ContractId = []\<rparr>
     = (Inl MustProvideId, [])"
  using
    cancel_order_target [of "\<lparr>Cancel_OrderId = ''11'', Cancel_ClientId = ''22'',
                               Cancel_ContractId = ''33''\<rparr>" example_env]
    cancel_order_target [of "\<lparr>Cancel_OrderId = [], Cancel_ClientId = ''22'',
                               Cancel_ContractId = ''33''\<rparr>" example_env]
    cancel_order_target [of "\<lparr>Cancel_OrderId = [], Cancel_ClientId = [],
                               Cancel_ContractId = ''33''\<rparr>" example_env]
    cancel_order_target [of "\<lparr>Cancel_OrderId = [], Cancel_ClientId = [],
                               Cancel_ContractId = []\<rparr>" example_env]
  by (simp add: example_env_def)

end
